theory Spec2Isabelle
  imports Main
begin

section \<open>Python values, errors and the notebook state\<close>

text \<open>
  The program is the Jupyter notebook \<^verbatim>\<open>demo.ipynb\<close>: thirty code cells of Python that
  call third-party libraries (requests, LangChain, Vertex AI, Redis clients). Python is
  dynamically typed, so every value the notebook handles is a \<open>val\<close>. A float is kept as
  the decimal literal the source writes (\<open>VFloat m e\<close> is \<open>m\<close> times ten to the \<open>e\<close>): the
  notebook performs no float arithmetic. \<open>VObj c as\<close> is an object of class \<open>c\<close> with the
  attributes \<open>as\<close>.
\<close>

datatype val =
    VNone
  | VBool bool
  | VInt int
  | VFloat int int
  | VStr string
  | VBytes string
  | VList "val list"
  | VDict "(val \<times> val) list"
  | VObj string "(string \<times> val) list"

text \<open>
  An exception is a value. \<open>LibraryError e\<close> is an exception \<open>e\<close> raised inside a library
  call; the other constructors are the exceptions the Python interpreter itself raises for
  the few operations the notebook performs on values.
\<close>

datatype error =
    LibraryError val
  | NameError string
  | TypeError string
  | KeyError val
  | AttributeError string

datatype 'a result = Ok 'a | Raise error

text \<open>
  The libraries are not part of the repository: they are a parameter \<open>L\<close> of the model.
  A library call is identified by the name of the function or method, its positional
  arguments (the receiver first, for a method) and its keyword arguments. It reads and
  changes the world \<open>'w\<close> (file system, network, Redis, remote models, library internals)
  and reads the module attribute \<^verbatim>\<open>langchain.llm_cache\<close>, which the notebook assigns.
  It either raises (\<open>Inl\<close>) or returns (\<open>Inr\<close>).
\<close>

type_synonym 'w library =
  "val \<Rightarrow> string \<Rightarrow> val list \<Rightarrow> (string \<times> val) list \<Rightarrow> 'w \<Rightarrow> (val + val) \<times> 'w"

record call =
  callee :: string
  pos_args :: "val list"
  kw_args :: "(string \<times> val) list"
  cache_seen :: val
  outcome :: "val + val"

text \<open>
  The state of the kernel: the notebook's global namespace, the module attribute
  \<^verbatim>\<open>langchain.llm_cache\<close>, the world, what has been printed, and the history of the
  library calls issued so far (a history variable: nothing reads it).
\<close>

record 'w state =
  globals :: "string \<rightharpoonup> val"
  llm_cache :: val
  world :: 'w
  stdout :: "val list"
  calls :: "call list"

type_synonym ('a, 'w) py = "'w state \<Rightarrow> 'a result \<times> 'w state"

definition ret :: "'a \<Rightarrow> ('a, 'w) py" where
  "ret x s = (Ok x, s)"

definition py_raise :: "error \<Rightarrow> ('a, 'w) py" where
  "py_raise e s = (Raise e, s)"

text \<open>An exception ends the computation; the state reached so far stays in the kernel.\<close>

definition py_bind :: "('a, 'w) py \<Rightarrow> ('a \<Rightarrow> ('b, 'w) py) \<Rightarrow> ('b, 'w) py" where
  "py_bind m f s = (case m s of (Ok x, s') \<Rightarrow> f x s' | (Raise e, s') \<Rightarrow> (Raise e, s'))"

section \<open>Expressions and statements\<close>

definition lit :: "val \<Rightarrow> (val, 'w) py" where
  "lit v = ret v"

definition var :: "string \<Rightarrow> (val, 'w) py" where
  "var x s = (case globals s x of None \<Rightarrow> (Raise (NameError x), s) | Some v \<Rightarrow> (Ok v, s))"

text \<open>Arguments are evaluated from left to right, positional ones before keyword ones.\<close>

fun eval_args :: "(val, 'w) py list \<Rightarrow> (val list, 'w) py" where
  "eval_args [] = ret []"
| "eval_args (e # es) = py_bind e (\<lambda>v. py_bind (eval_args es) (\<lambda>vs. ret (v # vs)))"

fun eval_kwargs :: "(string \<times> (val, 'w) py) list \<Rightarrow> ((string \<times> val) list, 'w) py" where
  "eval_kwargs [] = ret []"
| "eval_kwargs ((k, e) # es) =
     py_bind e (\<lambda>v. py_bind (eval_kwargs es) (\<lambda>vs. ret ((k, v) # vs)))"

definition invoke :: "'w library \<Rightarrow> string \<Rightarrow> val list \<Rightarrow> (string \<times> val) list \<Rightarrow> (val, 'w) py" where
  "invoke L f as ks s =
     (case L (llm_cache s) f as ks (world s) of
        (r, w') \<Rightarrow>
          (case r of Inl e \<Rightarrow> Raise (LibraryError e) | Inr v \<Rightarrow> Ok v,
           s\<lparr>world := w',
             calls := calls s @ [\<lparr>callee = f, pos_args = as, kw_args = ks,
                                  cache_seen = llm_cache s, outcome = r\<rparr>]\<rparr>))"

definition call ::
  "'w library \<Rightarrow> string \<Rightarrow> (val, 'w) py list \<Rightarrow> (string \<times> (val, 'w) py) list \<Rightarrow> (val, 'w) py" where
  "call L f es kes = py_bind (eval_args es) (\<lambda>as. py_bind (eval_kwargs kes) (\<lambda>ks. invoke L f as ks))"

text \<open>
  The operations the interpreter itself performs on values are pure: they return a value
  or the exception to raise.
\<close>

definition lift :: "error + 'a \<Rightarrow> ('a, 'w) py" where
  "lift r s = (case r of Inl e \<Rightarrow> (Raise e, s) | Inr v \<Rightarrow> (Ok v, s))"

text \<open>\<^verbatim>\<open>v.name\<close>: attribute access on an object.\<close>

fun py_getattr :: "val \<Rightarrow> string \<Rightarrow> error + val" where
  "py_getattr (VObj c as) name =
     (case map_of as name of Some a \<Rightarrow> Inr a | None \<Rightarrow> Inl (AttributeError name))"
| "py_getattr v name = Inl (AttributeError name)"

definition getattr :: "(val, 'w) py \<Rightarrow> string \<Rightarrow> (val, 'w) py" where
  "getattr e name = py_bind e (\<lambda>v. lift (py_getattr v name))"

text \<open>
  \<^verbatim>\<open>v[k]\<close>: the notebook subscripts only the value a chain call returns, with a string
  key. A dictionary without the key raises KeyError; a value of another kind raises
  TypeError (the model gives no subscript to library objects).
\<close>

fun py_getitem :: "val \<Rightarrow> val \<Rightarrow> error + val" where
  "py_getitem (VDict kvs) k =
     (case map_of kvs k of Some a \<Rightarrow> Inr a | None \<Rightarrow> Inl (KeyError k))"
| "py_getitem v k = Inl (TypeError ''not subscriptable'')"

definition subscript :: "(val, 'w) py \<Rightarrow> val \<Rightarrow> (val, 'w) py" where
  "subscript e k = py_bind e (\<lambda>v. lift (py_getitem v k))"

fun py_len :: "val \<Rightarrow> error + val" where
  "py_len (VList xs) = Inr (VInt (int (length xs)))"
| "py_len (VStr cs) = Inr (VInt (int (length cs)))"
| "py_len (VBytes cs) = Inr (VInt (int (length cs)))"
| "py_len (VDict kvs) = Inr (VInt (int (length kvs)))"
| "py_len v = Inl (TypeError ''no len'')"

definition len :: "(val, 'w) py \<Rightarrow> (val, 'w) py" where
  "len e = py_bind e (\<lambda>v. lift (py_len v))"

text \<open>\<^verbatim>\<open>str(n)\<close> of an integer, as an f-string renders \<^verbatim>\<open>{len(docs)}\<close>.\<close>

fun digits :: "nat \<Rightarrow> nat \<Rightarrow> string" where
  "digits 0 n = []"
| "digits (Suc fuel) n =
     (if n < 10 then [char_of (48 + n)]
      else digits fuel (n div 10) @ [char_of (48 + n mod 10)])"

definition str_nat :: "nat \<Rightarrow> string" where
  "str_nat n = digits (Suc n) n"

fun py_format :: "val \<Rightarrow> error + string" where
  "py_format (VStr cs) = Inr cs"
| "py_format (VInt i) = Inr (if i < 0 then CHR ''-'' # str_nat (nat (- i)) else str_nat (nat i))"
| "py_format v = Inl (TypeError ''format'')"

text \<open>
  An f-string: the literal pieces and the rendered fields, concatenated from left to
  right. The notebook's f-strings have one field each, the length of a list; the model
  renders no other kind of value.
\<close>

fun fstring :: "(val, 'w) py list \<Rightarrow> (string, 'w) py" where
  "fstring [] = ret []"
| "fstring (e # es) =
     py_bind e (\<lambda>v. py_bind (lift (py_format v)) (\<lambda>cs.
       py_bind (fstring es) (\<lambda>rest. ret (cs @ rest))))"

definition fstr :: "(val, 'w) py list \<Rightarrow> (val, 'w) py" where
  "fstr es = py_bind (fstring es) (\<lambda>cs. ret (VStr cs))"

text \<open>A dictionary display \<^verbatim>\<open>{"k": e}\<close> with one entry.\<close>

definition dict1 :: "val \<Rightarrow> (val, 'w) py \<Rightarrow> (val, 'w) py" where
  "dict1 k e = py_bind e (\<lambda>v. ret (VDict [(k, v)]))"

definition store :: "string \<Rightarrow> val \<Rightarrow> (unit, 'w) py" where
  "store x v s = (Ok (), s\<lparr>globals := (globals s)(x \<mapsto> v)\<rparr>)"

definition assign :: "string \<Rightarrow> (val, 'w) py \<Rightarrow> (unit, 'w) py" where
  "assign x e = py_bind e (store x)"

definition expr_stmt :: "(val, 'w) py \<Rightarrow> (unit, 'w) py" where
  "expr_stmt e = py_bind e (\<lambda>v. ret ())"

text \<open>\<^verbatim>\<open>print\<close> is rich's pretty-printer: the model records the value printed.\<close>

definition emit :: "val \<Rightarrow> (unit, 'w) py" where
  "emit v s = (Ok (), s\<lparr>stdout := stdout s @ [v]\<rparr>)"

definition print :: "(val, 'w) py \<Rightarrow> (unit, 'w) py" where
  "print e = py_bind e emit"

text \<open>\<^verbatim>\<open>langchain.llm_cache = e\<close>: the assignment to the module attribute.\<close>

definition store_llm_cache :: "val \<Rightarrow> (unit, 'w) py" where
  "store_llm_cache v s = (Ok (), s\<lparr>llm_cache := v\<rparr>)"

definition set_llm_cache :: "(val, 'w) py \<Rightarrow> (unit, 'w) py" where
  "set_llm_cache e = py_bind e store_llm_cache"

text \<open>
  \<^verbatim>\<open>x.extend(e)\<close> on the list bound to the global \<open>x\<close>: the receiver is looked up first
  (a value that is no list has no \<^verbatim>\<open>extend\<close>), then the argument is evaluated and
  iterated, then the list grows in place. Nothing else refers to the list, so the new
  list is bound to \<open>x\<close>. Iterating a list gives its items, a string its characters,
  a bytes object its bytes as integers, and a dictionary its keys; no other value of the
  model is iterable (an object has attributes only).
\<close>

fun list_items :: "val \<Rightarrow> error + val list" where
  "list_items (VList xs) = Inr xs"
| "list_items v = Inl (AttributeError ''extend'')"

fun iterate :: "val \<Rightarrow> error + val list" where
  "iterate (VList ys) = Inr ys"
| "iterate (VStr cs) = Inr (map (\<lambda>c. VStr [c]) cs)"
| "iterate (VBytes cs) = Inr (map (\<lambda>c. VInt (of_char c)) cs)"
| "iterate (VDict kvs) = Inr (map fst kvs)"
| "iterate v = Inl (TypeError ''not iterable'')"

definition extend_list :: "string \<Rightarrow> (val, 'w) py \<Rightarrow> (unit, 'w) py" where
  "extend_list x e =
     py_bind (var x) (\<lambda>r. py_bind (lift (list_items r)) (\<lambda>xs.
     py_bind e (\<lambda>a. py_bind (lift (iterate a)) (\<lambda>ys.
     store x (VList (xs @ ys))))))"

fun block :: "(unit, 'w) py list \<Rightarrow> (unit, 'w) py" where
  "block [] = ret ()"
| "block (c # cs) = py_bind c (\<lambda>u. block cs)"

text \<open>
  The cell magic \<^verbatim>\<open>%%time\<close> runs the body of its cell and reports the time it took.
  What it does when the body raises depends on the IPython that runs the notebook, which
  the repository does not fix. IPython 8 catches every exception of the body, shows the
  traceback and returns, so that the cell ends normally and the notebook goes on with
  what the body did up to the exception (\<open>Swallowing\<close>); later versions let the
  exception through, and the cell fails (\<open>Propagating\<close>). The interpreter's behaviour is
  a parameter of the model. The report of the times and the traceback are not recorded:
  \<open>stdout\<close> holds what the notebook's own \<^verbatim>\<open>print\<close> statements print.
\<close>

datatype magic = Swallowing | Propagating

definition time_magic :: "magic \<Rightarrow> (unit, 'w) py \<Rightarrow> (unit, 'w) py" where
  "time_magic M body s =
     (case body s of
        (Ok u, s') \<Rightarrow> (Ok (), s')
      | (Raise e, s') \<Rightarrow>
          (case M of Swallowing \<Rightarrow> (Ok (), s') | Propagating \<Rightarrow> (Raise e, s')))"

text \<open>
  A \<^verbatim>\<open>def\<close> binds the function's name in the global namespace; a call looks the name up
  and runs the body on the evaluated arguments.
\<close>

definition function_object :: "string \<Rightarrow> val" where
  "function_object name = VObj ''function'' [(''__name__'', VStr name)]"

definition def :: "string \<Rightarrow> (unit, 'w) py" where
  "def name = assign name (lit (function_object name))"

definition callable :: "string \<Rightarrow> val \<Rightarrow> error + unit" where
  "callable name f =
     (if f = function_object name then Inr () else Inl (TypeError ''not callable''))"

definition call_def2 ::
  "string \<Rightarrow> (val \<Rightarrow> val \<Rightarrow> (val, 'w) py) \<Rightarrow> (val, 'w) py \<Rightarrow> (val, 'w) py \<Rightarrow> (val, 'w) py" where
  "call_def2 name body e1 e2 =
     py_bind (var name) (\<lambda>f. py_bind (lift (callable name f)) (\<lambda>c.
     py_bind e1 (\<lambda>a. py_bind e2 (\<lambda>b. body a b))))"

section \<open>The notebook\<close>

text \<open>
  Each code cell is a definition named after the cell's id. An \<^verbatim>\<open>import\<close> is not
  modelled (module loading is outside the model; every cell imports the library names it
  calls). Four cells start with \<^verbatim>\<open>%%time\<close>: their body runs under the magic.
\<close>

subsection \<open>Prerequisites\<close>

text \<open>The longer string literals of the notebook are named constants.\<close>

definition pip_packages :: string where
  "pip_packages = ''redis langchain rich spacy google-cloud-aiplatform unstructured markdown python-dotenv requests''"

definition cell_4bc70abe :: "'w library \<Rightarrow> (unit, 'w) py" where
  "cell_4bc70abe L = block [expr_stmt (call L ''%pip install'' [lit (VStr pip_packages)] [])]"

definition cell_5560214a :: "'w library \<Rightarrow> (unit, 'w) py" where
  "cell_5560214a L = block [
     expr_stmt (call L ''spacy.cli.download'' [lit (VStr ''en_core_web_sm'')] [])]"

text \<open>
  \<^verbatim>\<open>
  def download_file(url, filename):
      import requests
      r = requests.get(url, allow_redirects=True)
      open(filename, 'wb').write(r.content)
  \<close>
  The file is opened before \<^verbatim>\<open>r.content\<close> is read; the function returns None.
\<close>

definition download_file :: "'w library \<Rightarrow> val \<Rightarrow> val \<Rightarrow> (val, 'w) py" where
  "download_file L url filename =
     py_bind (call L ''requests.get'' [lit url] [(''allow_redirects'', lit (VBool True))]) (\<lambda>r.
     py_bind (call L ''write''
                [call L ''open'' [lit filename, lit (VStr ''wb'')] [],
                 getattr (lit r) ''content''] []) (\<lambda>n.
     ret VNone))"

definition cell_c4c7a4eb :: "'w library \<Rightarrow> (unit, 'w) py" where
  "cell_c4c7a4eb L = block [
     expr_stmt (call L ''warnings.filterwarnings'' [lit (VStr ''ignore'')] []),
     expr_stmt (call L ''dotenv.load_dotenv'' [] []),
     def ''download_file'']"

subsection \<open>0. Data preparation\<close>

definition aggs_url :: string where
  "aggs_url = ''https://github.com/RediSearch/RediSearch/raw/master/docs/docs/advanced-concepts/aggregations.md''"

definition query_syntax_url :: string where
  "query_syntax_url = ''https://github.com/RediSearch/RediSearch/raw/master/docs/docs/advanced-concepts/query_syntax.md''"

definition cell_7235d10e :: "'w library \<Rightarrow> (unit, 'w) py" where
  "cell_7235d10e L = block [
     assign ''aggs_url'' (lit (VStr aggs_url)),
     assign ''aggs_doc_path'' (lit (VStr ''aggregations.md'')),
     expr_stmt (call_def2 ''download_file'' (download_file L) (var ''aggs_url'') (var ''aggs_doc_path'')),
     assign ''docs'' (call L ''load'' [call L ''UnstructuredMarkdownLoader'' [var ''aggs_doc_path''] []] []),
     assign ''query_syntax_url'' (lit (VStr query_syntax_url)),
     assign ''query_doc_path'' (lit (VStr ''query_syntax.md'')),
     expr_stmt (call_def2 ''download_file'' (download_file L) (var ''query_syntax_url'') (var ''query_doc_path'')),
     extend_list ''docs'' (call L ''load'' [call L ''UnstructuredMarkdownLoader'' [var ''query_doc_path''] []] []),
     print (fstr [lit (VStr ''Loaded ''), len (var ''docs''), lit (VStr '' documents'')])]"

definition cell_db2cad70 :: "'w library \<Rightarrow> (unit, 'w) py" where
  "cell_db2cad70 L = block [
     assign ''text_splitter'' (call L ''SpacyTextSplitter'' []
       [(''chunk_size'', lit (VInt 750)), (''chunk_overlap'', lit (VInt 50)),
        (''strip_whitespace'', lit (VBool True))]),
     assign ''splits'' (call L ''split_documents'' [var ''text_splitter'', var ''docs''] []),
     print (fstr [lit (VStr ''Generated ''), len (var ''splits''), lit (VStr '' splits'')])]"

definition cell_a5830869 :: "'w library \<Rightarrow> (unit, 'w) py" where
  "cell_a5830869 L = block [
     assign ''embedding'' (call L ''VertexAIEmbeddings'' []
       [(''model_name'', lit (VStr ''textembedding-gecko''))])]"

definition cell_62489946 :: "magic \<Rightarrow> 'w library \<Rightarrow> (unit, 'w) py" where
  "cell_62489946 M L = time_magic M (block [
     assign ''vectordb'' (call L ''Redis.from_documents'' []
       [(''documents'', var ''splits''), (''embedding'', var ''embedding''),
        (''index_name'', lit (VStr ''redis-vs-docs''))])])"

definition question_1 :: string where
  "question_1 = ''How can I load the redis key name (Document ID) and filter results based on that field?''"

definition cell_6dd861cc :: "'w library \<Rightarrow> (unit, 'w) py" where
  "cell_6dd861cc L = block [assign ''question'' (lit (VStr question_1))]"

definition cell_eab9031e :: "'w library \<Rightarrow> (unit, 'w) py" where
  "cell_eab9031e L = block [
     assign ''results'' (call L ''similarity_search_with_score''
       [var ''vectordb'', var ''question''] [(''k'', lit (VInt 3))]),
     print (var ''results'')]"

definition cell_d1bcb261 :: "'w library \<Rightarrow> (unit, 'w) py" where
  "cell_d1bcb261 L = block [
     assign ''results'' (call L ''max_marginal_relevance_search''
       [var ''vectordb'', var ''question'']
       [(''k'', lit (VInt 3)), (''top_k'', lit (VInt 5)), (''threshold'', lit (VFloat 5 (- 1)))]),
     print (var ''results'')]"

subsection \<open>1. Semantic search: question answering\<close>

definition QA_TEMPLATE :: string where
  "QA_TEMPLATE = ''\<newline>Use the following pieces of context to answer the question at the end. \<newline>If you don't know the answer, just say that you don't know, don't try to make up an answer.\<newline>Use three sentences maximum. Keep the answer as concise as possible. \<newline>-----\<newline>Context: \<newline>\<newline>{context}\<newline>-----\<newline>Question: {question}\<newline>Helpful Answer:''"

definition cell_80dccb73 :: "'w library \<Rightarrow> (unit, 'w) py" where
  "cell_80dccb73 L = block [
     assign ''QA_TEMPLATE'' (lit (VStr QA_TEMPLATE)),
     assign ''QA_CHAIN_PROMPT'' (call L ''PromptTemplate'' []
       [(''input_variables'', lit (VList [VStr ''context'', VStr ''question''])),
        (''template'', var ''QA_TEMPLATE'')])]"

definition cell_beb248a1 :: "'w library \<Rightarrow> (unit, 'w) py" where
  "cell_beb248a1 L = block [
     assign ''llm'' (call L ''VertexAI'' []
       [(''model_name'', lit (VStr ''gemini-pro'')), (''max_output_tokens'', lit (VInt 512)),
        (''temperature'', lit (VFloat 3 (- 1)))]),
     assign ''qa'' (call L ''RetrievalQA.from_chain_type'' []
       [(''llm'', var ''llm''), (''chain_type'', lit (VStr ''stuff'')),
        (''retriever'', call L ''as_retriever'' [var ''vectordb''] []),
        (''return_source_documents'', lit (VBool True))])]"

definition cell_7bf0aa8e :: "'w library \<Rightarrow> (unit, 'w) py" where
  "cell_7bf0aa8e L = block [assign ''question'' (lit (VStr question_1))]"

text \<open>
  \<^verbatim>\<open>
  result = qa({"query": question})
  print(result['result'])
  \<close>
  The same two lines are the body of three cells, each under \<^verbatim>\<open>%%time\<close>.
\<close>

definition run_qa :: "'w library \<Rightarrow> (unit, 'w) py" where
  "run_qa L = block [
     assign ''result'' (call L ''__call__'' [var ''qa'', dict1 (VStr ''query'') (var ''question'')] []),
     print (subscript (var ''result'') (VStr ''result''))]"

definition cell_67414866 :: "magic \<Rightarrow> 'w library \<Rightarrow> (unit, 'w) py" where
  "cell_67414866 M L = time_magic M (run_qa L)"

subsection \<open>2. Semantic cache\<close>

definition cell_e471f9cc :: "'w library \<Rightarrow> (unit, 'w) py" where
  "cell_e471f9cc L = block [
     set_llm_cache (call L ''RedisSemanticCache'' []
       [(''embedding'', var ''embedding''), (''redis_url'', lit (VStr ''redis://localhost:6379'')),
        (''score_threshold'', lit (VFloat 1 (- 1)))])]"

definition question_2 :: string where
  "question_2 = ''How do I get documents withing a certain radius from a point?''"

definition question_3 :: string where
  "question_3 = ''How do I get documents withing a certain radius from a coordinate?''"

definition cell_40009aab :: "'w library \<Rightarrow> (unit, 'w) py" where
  "cell_40009aab L = block [assign ''question'' (lit (VStr question_2))]"

definition cell_e33c66cb :: "magic \<Rightarrow> 'w library \<Rightarrow> (unit, 'w) py" where
  "cell_e33c66cb M L = time_magic M (run_qa L)"

definition cell_e36d5031 :: "'w library \<Rightarrow> (unit, 'w) py" where
  "cell_e36d5031 L = block [assign ''question'' (lit (VStr question_3))]"

definition cell_a9f6f8f5 :: "magic \<Rightarrow> 'w library \<Rightarrow> (unit, 'w) py" where
  "cell_a9f6f8f5 M L = time_magic M (run_qa L)"

subsection \<open>3. Chat memory\<close>

definition cell_b3c95687 :: "'w library \<Rightarrow> (unit, 'w) py" where
  "cell_b3c95687 L = block [set_llm_cache (lit VNone)]"

definition template_no_memory :: string where
  "template_no_memory = ''You are an assistant designed to be able to assist with a wide range of tasks, \<newline>from answering simple questions to providing in-depth explanations and discussions on a wide range of topics.\<newline>\<newline>Human: {human_input}\<newline>Assistant:''"

definition cell_9832e65c :: "'w library \<Rightarrow> (unit, 'w) py" where
  "cell_9832e65c L = block [
     assign ''llm'' (call L ''VertexAI'' []
       [(''model_name'', lit (VStr ''gemini-pro'')), (''max_output_tokens'', lit (VInt 512)),
        (''temperature'', lit (VFloat 2 (- 1)))]),
     assign ''template'' (lit (VStr template_no_memory)),
     assign ''prompt'' (call L ''PromptTemplate'' []
       [(''input_variables'', lit (VList [VStr ''human_input''])), (''template'', var ''template'')]),
     assign ''chat'' (call L ''LLMChain'' []
       [(''llm'', var ''llm''), (''prompt'', var ''prompt''), (''verbose'', lit (VBool True))])]"

text \<open>
  \<^verbatim>\<open>
  reply = chat.predict(human_input="...")
  print(reply)
  \<close>
  Eight cells are these two lines, each with its own input.
\<close>

definition chat_turn :: "'w library \<Rightarrow> string \<Rightarrow> (unit, 'w) py" where
  "chat_turn L human_input = block [
     assign ''reply'' (call L ''predict'' [var ''chat''] [(''human_input'', lit (VStr human_input))]),
     print (var ''reply'')]"

definition greeting_eli :: string where
  "greeting_eli = ''Hi, my name is Eli. I like eating noodles and I work at Redis. What is your name?''"

definition cell_e39ff809 :: "'w library \<Rightarrow> (unit, 'w) py" where
  "cell_e39ff809 L = chat_turn L greeting_eli"

definition world_cup :: string where
  "world_cup = ''Who won the World Cup in 2018?''"

definition cell_54922686 :: "'w library \<Rightarrow> (unit, 'w) py" where
  "cell_54922686 L = chat_turn L world_cup"

definition whats_my_name :: string where
  "whats_my_name = ''What's my name?''"

definition cell_2310d2a8 :: "'w library \<Rightarrow> (unit, 'w) py" where
  "cell_2310d2a8 L = chat_turn L whats_my_name"

definition template_memory :: string where
  "template_memory = ''You are an assistant designed to be able to assist with a wide range of tasks, \<newline>from answering simple questions to providing in-depth explanations and discussions on a wide range of topics.\<newline>\<newline>Use the human input to generate a response that is relevant to the conversation history.\<newline>----------\<newline>History:\<newline>\<newline>{history}\<newline>----------\<newline>Human: {human_input}\<newline>Assistant:''"

definition cell_807c7c70 :: "'w library \<Rightarrow> (unit, 'w) py" where
  "cell_807c7c70 L = block [
     assign ''llm'' (call L ''VertexAI'' []
       [(''model_name'', lit (VStr ''gemini-pro'')), (''max_output_tokens'', lit (VInt 512)),
        (''temperature'', lit (VFloat 3 (- 1)))]),
     assign ''template'' (lit (VStr template_memory)),
     assign ''prompt'' (call L ''PromptTemplate'' []
       [(''input_variables'', lit (VList [VStr ''history'', VStr ''human_input''])),
        (''template'', var ''template'')]),
     assign ''message_history'' (call L ''RedisChatMessageHistory'' []
       [(''key_prefix'', lit (VStr ''chat-history:'')), (''session_id'', lit (VStr ''vs-demo''))]),
     expr_stmt (call L ''clear'' [var ''message_history''] []),
     assign ''memory'' (call L ''ConversationBufferMemory'' []
       [(''memory_key'', lit (VStr ''history'')), (''chat_memory'', var ''message_history'')]),
     assign ''chat'' (call L ''LLMChain'' []
       [(''llm'', var ''llm''), (''prompt'', var ''prompt''), (''verbose'', lit (VBool True)),
        (''memory'', var ''memory'')])]"

definition greeting_adam :: string where
  "greeting_adam = ''Hi, my name is Adam. I have 3 kids and I like gardening. What is your name?''"

definition cell_0706d1f6 :: "'w library \<Rightarrow> (unit, 'w) py" where
  "cell_0706d1f6 L = chat_turn L greeting_adam"

definition harry_potter :: string where
  "harry_potter = ''How long was the last Harry Potter book?''"

definition cell_bd12418b :: "'w library \<Rightarrow> (unit, 'w) py" where
  "cell_bd12418b L = chat_turn L harry_potter"

definition their_school :: string where
  "their_school = ''What's the name of their school?''"

definition cell_8a50c708 :: "'w library \<Rightarrow> (unit, 'w) py" where
  "cell_8a50c708 L = chat_turn L their_school"

definition train_platform :: string where
  "train_platform = ''What train platform was the train on?''"

definition cell_c6c6e6bc :: "'w library \<Rightarrow> (unit, 'w) py" where
  "cell_c6c6e6bc L = chat_turn L train_platform"

definition remember_my_name :: string where
  "remember_my_name = ''Do you remember my name?''"

definition cell_d2dfb571 :: "'w library \<Rightarrow> (unit, 'w) py" where
  "cell_d2dfb571 L = chat_turn L remember_my_name"

subsection \<open>Running the notebook\<close>

text \<open>The cells in the order of the file, grouped by the notebook's headings.\<close>

definition prerequisites :: "'w library \<Rightarrow> (unit, 'w) py" where
  "prerequisites L = block [cell_4bc70abe L, cell_5560214a L, cell_c4c7a4eb L]"

definition data_preparation :: "magic \<Rightarrow> 'w library \<Rightarrow> (unit, 'w) py" where
  "data_preparation M L = block [
     cell_7235d10e L, cell_db2cad70 L, cell_a5830869 L, cell_62489946 M L,
     cell_6dd861cc L, cell_eab9031e L, cell_d1bcb261 L]"

definition question_answering :: "magic \<Rightarrow> 'w library \<Rightarrow> (unit, 'w) py" where
  "question_answering M L = block [
     cell_80dccb73 L, cell_beb248a1 L, cell_7bf0aa8e L, cell_67414866 M L]"

definition semantic_cache :: "magic \<Rightarrow> 'w library \<Rightarrow> (unit, 'w) py" where
  "semantic_cache M L = block [
     cell_e471f9cc L, cell_40009aab L, cell_e33c66cb M L, cell_e36d5031 L, cell_a9f6f8f5 M L]"

definition chat_without_memory :: "'w library \<Rightarrow> (unit, 'w) py" where
  "chat_without_memory L = block [
     cell_9832e65c L, cell_e39ff809 L, cell_54922686 L, cell_2310d2a8 L]"

definition chat_with_memory :: "'w library \<Rightarrow> (unit, 'w) py" where
  "chat_with_memory L = block [
     cell_807c7c70 L, cell_0706d1f6 L, cell_bd12418b L, cell_8a50c708 L,
     cell_c6c6e6bc L, cell_d2dfb571 L]"

definition chat_memory :: "'w library \<Rightarrow> (unit, 'w) py" where
  "chat_memory L = block [cell_b3c95687 L, chat_without_memory L, chat_with_memory L]"

definition notebook :: "magic \<Rightarrow> 'w library \<Rightarrow> (unit, 'w) py" where
  "notebook M L = block [
     prerequisites L, data_preparation M L, question_answering M L, semantic_cache M L,
     chat_memory L]"

text \<open>A fresh kernel: nothing bound, nothing printed, no cache installed.\<close>

definition fresh :: "'w \<Rightarrow> 'w state" where
  "fresh w = \<lparr>globals = Map.empty, llm_cache = VNone, world = w, stdout = [], calls = []\<rparr>"

text \<open>
  The first use case on its own: the cells up to and including the first run of the
  question-answering chain.
\<close>

definition retrieval_qa :: "magic \<Rightarrow> 'w library \<Rightarrow> (unit, 'w) py" where
  "retrieval_qa M L = block [prerequisites L, data_preparation M L, question_answering M L]"

section \<open>Observations on a run\<close>

text \<open>A call that returned \<open>r\<close>, as it stands in the history.\<close>

definition returned :: "string \<Rightarrow> val list \<Rightarrow> (string \<times> val) list \<Rightarrow> val \<Rightarrow> val \<Rightarrow> call" where
  "returned f as ks c r =
     \<lparr>callee = f, pos_args = as, kw_args = ks, cache_seen = c, outcome = Inr r\<rparr>"

text \<open>The calls a computation added to the history.\<close>

definition new_calls :: "'w state \<Rightarrow> 'w state \<Rightarrow> call list" where
  "new_calls s s' = drop (length (calls s)) (calls s')"

text \<open>
  The stages of the retrieval pipeline, by the library function that performs each.
  \<^verbatim>\<open>Redis.from_documents\<close> embeds the chunks and stores them in the index in one call;
  calling the chain retrieves and generates in one call.
\<close>

datatype stage = Load | Split | EmbedStore | Query | Generate

definition stage_of :: "string \<Rightarrow> stage option" where
  "stage_of f =
     (if f = ''load'' then Some Load
      else if f = ''split_documents'' then Some Split
      else if f = ''Redis.from_documents'' then Some EmbedStore
      else if f = ''similarity_search_with_score'' then Some Query
      else if f = ''max_marginal_relevance_search'' then Some Query
      else if f = ''__call__'' then Some Generate
      else None)"

definition pipeline :: "call list \<Rightarrow> stage list" where
  "pipeline cs = List.map_filter (\<lambda>c. stage_of (callee c)) cs"

text \<open>The calls to one library function, and the keyword names each was given.\<close>

definition calls_to :: "string \<Rightarrow> call list \<Rightarrow> call list" where
  "calls_to f cs = filter (\<lambda>c. callee c = f) cs"

definition keyword_names :: "call \<Rightarrow> string list" where
  "keyword_names c = map fst (kw_args c)"

section \<open>Filling a prompt template\<close>

text \<open>
  The chains are given their prompt as a template with fields in braces; the library
  fills it with Python's \<^verbatim>\<open>str.format\<close>. A field \<^verbatim>\<open>{name}\<close> is replaced by the
  string given for \<open>name\<close>, a doubled brace stands for one brace, and anything else (an
  unknown or empty field, a brace left open or closed alone, a value that is no string)
  is an error. This is what the contract of \<^verbatim>\<open>predict\<close> below and the library instance
  refer to.
\<close>

datatype scan = Text | Opened | Field string | Closed

fun fmt :: "(string \<times> val) list \<Rightarrow> scan \<Rightarrow> string \<Rightarrow> string option" where
  "fmt kv m [] = (case m of Text \<Rightarrow> Some [] | _ \<Rightarrow> None)"
| "fmt kv m (c # cs) =
     (case m of
        Text \<Rightarrow>
          if c = CHR ''{'' then fmt kv Opened cs
          else if c = CHR ''}'' then fmt kv Closed cs
          else map_option ((#) c) (fmt kv Text cs)
      | Opened \<Rightarrow>
          if c = CHR ''{'' then map_option ((#) c) (fmt kv Text cs)
          else if c = CHR ''}'' then None
          else fmt kv (Field [c]) cs
      | Field n \<Rightarrow>
          if c = CHR ''}'' then
            (case map_of kv n of
               Some (VStr v) \<Rightarrow> map_option ((@) v) (fmt kv Text cs)
             | _ \<Rightarrow> None)
          else fmt kv (Field (n @ [c])) cs
      | Closed \<Rightarrow> if c = CHR ''}'' then map_option ((#) c) (fmt kv Text cs) else None)"

definition fill :: "(string \<times> val) list \<Rightarrow> string \<Rightarrow> string option" where
  "fill kv T = fmt kv Text T"

section \<open>A library to run the notebook on\<close>

text \<open>
  One small, executable instance of the libraries, on which the notebook can be run from
  start to end. The world holds the web (a status and a body for each URL), the files, the
  \<^verbatim>\<open>.env\<close> file and the environment, the Redis servers (the values stored under a
  key of the server at a URL, and the entries of the semantic cache kept on the server
  at a URL), and the prompts the remote model has been asked.
\<close>

record demo_world =
  web :: "(string \<times> int \<times> string) list"
  files :: "(string \<times> string) list"
  dotenv_file :: "(string \<times> string) list"
  environ :: "(string \<times> string) list"
  redis :: "((string \<times> string) \<times> val list) list"
  cache :: "(string \<times> val list) list"
  asked :: "string list"

fun put :: "'k \<Rightarrow> 'v \<Rightarrow> ('k \<times> 'v) list \<Rightarrow> ('k \<times> 'v) list" where
  "put k v [] = [(k, v)]"
| "put k v ((k', v') # kvs) = (if k = k' then (k, v) # kvs else (k', v') # put k v kvs)"

definition redis_get :: "demo_world \<Rightarrow> string \<Rightarrow> string \<Rightarrow> val list" where
  "redis_get w url key = (case map_of (redis w) (url, key) of None \<Rightarrow> [] | Some vs \<Rightarrow> vs)"

definition redis_put :: "demo_world \<Rightarrow> string \<Rightarrow> string \<Rightarrow> val list \<Rightarrow> demo_world" where
  "redis_put w url key vs = w\<lparr>redis := put (url, key) vs (redis w)\<rparr>"

definition cache_get :: "demo_world \<Rightarrow> string \<Rightarrow> val list" where
  "cache_get w url = (case map_of (cache w) url of None \<Rightarrow> [] | Some es \<Rightarrow> es)"

definition exception :: "string \<Rightarrow> val" where
  "exception name = VObj name []"

text \<open>
  \<^verbatim>\<open>requests.get\<close> raises when no server answers; a response with an error status is
  returned like any other.
\<close>

definition lib_requests_get :: "val list \<Rightarrow> demo_world \<Rightarrow> (val + val) \<times> demo_world" where
  "lib_requests_get as w =
     (case as of
        [VStr url] \<Rightarrow>
          (case map_of (web w) url of
             None \<Rightarrow> (Inl (exception ''ConnectionError''), w)
           | Some (status, body) \<Rightarrow>
               (Inr (VObj ''Response'' [(''status_code'', VInt status), (''content'', VBytes body)]), w))
      | _ \<Rightarrow> (Inl (exception ''TypeError''), w))"

definition lib_open :: "val list \<Rightarrow> demo_world \<Rightarrow> (val + val) \<times> demo_world" where
  "lib_open as w =
     (case as of
        [VStr name, VStr mode] \<Rightarrow>
          (Inr (VObj ''file'' [(''name'', VStr name)]), w\<lparr>files := put name [] (files w)\<rparr>)
      | _ \<Rightarrow> (Inl (exception ''TypeError''), w))"

definition lib_write :: "val list \<Rightarrow> demo_world \<Rightarrow> (val + val) \<times> demo_world" where
  "lib_write as w =
     (case as of
        [VObj c [(k, VStr name)], VBytes b] \<Rightarrow>
          (Inr (VInt (int (length b))), w\<lparr>files := put name b (files w)\<rparr>)
      | _ \<Rightarrow> (Inl (exception ''TypeError''), w))"

definition lib_loader :: "val list \<Rightarrow> demo_world \<Rightarrow> (val + val) \<times> demo_world" where
  "lib_loader as w =
     (case as of
        [VStr path] \<Rightarrow> (Inr (VObj ''UnstructuredMarkdownLoader'' [(''file_path'', VStr path)]), w)
      | _ \<Rightarrow> (Inl (exception ''TypeError''), w))"

definition lib_load :: "val list \<Rightarrow> demo_world \<Rightarrow> (val + val) \<times> demo_world" where
  "lib_load as w =
     (case as of
        [VObj c [(k, VStr path)]] \<Rightarrow>
          (case map_of (files w) path of
             None \<Rightarrow> (Inl (exception ''FileNotFoundError''), w)
           | Some text \<Rightarrow>
               (Inr (VList [VObj ''Document'' [(''page_content'', VStr text), (''source'', VStr path)]]), w))
      | _ \<Rightarrow> (Inl (exception ''TypeError''), w))"

text \<open>The splitter of this instance leaves each document as one chunk.\<close>

definition lib_split_documents :: "val list \<Rightarrow> demo_world \<Rightarrow> (val + val) \<times> demo_world" where
  "lib_split_documents as w =
     (case as of
        [splitter, VList docs] \<Rightarrow> (Inr (VList docs), w)
      | _ \<Rightarrow> (Inl (exception ''TypeError''), w))"

text \<open>
  The vector store connects to the server named by the environment variable
  \<^verbatim>\<open>REDIS_URL\<close> when it is given no URL, as the README tells the user to set it.
\<close>

definition store_url :: "(string \<times> val) list \<Rightarrow> demo_world \<Rightarrow> string option" where
  "store_url ks w =
     (case map_of ks ''redis_url'' of
        Some (VStr url) \<Rightarrow> Some url
      | Some v \<Rightarrow> None
      | None \<Rightarrow> map_of (environ w) ''REDIS_URL'')"

definition lib_from_documents :: "(string \<times> val) list \<Rightarrow> demo_world \<Rightarrow> (val + val) \<times> demo_world" where
  "lib_from_documents ks w =
     (case store_url ks w of
        None \<Rightarrow> (Inl (exception ''ValueError''), w)
      | Some url \<Rightarrow>
          (case map_of ks ''documents'' of
             Some (VList docs) \<Rightarrow>
               (case map_of ks ''index_name'' of
                  Some (VStr index) \<Rightarrow>
                    (Inr (VObj ''Redis'' [(''redis_url'', VStr url), (''index_name'', VStr index)]),
                     redis_put w url index docs)
                | _ \<Rightarrow> (Inl (exception ''TypeError''), w))
           | _ \<Rightarrow> (Inl (exception ''TypeError''), w)))"

definition lib_as_retriever :: "val list \<Rightarrow> demo_world \<Rightarrow> (val + val) \<times> demo_world" where
  "lib_as_retriever as w =
     (case as of
        [vectordb] \<Rightarrow> (Inr (VObj ''VectorStoreRetriever'' [(''vectorstore'', vectordb)]), w)
      | _ \<Rightarrow> (Inl (exception ''TypeError''), w))"

text \<open>A search returns the first \<open>k\<close> documents of the index (four by default).\<close>

definition search :: "val \<Rightarrow> nat \<Rightarrow> demo_world \<Rightarrow> val option" where
  "search vectordb k w =
     (case vectordb of
        VObj c [(k1, VStr url), (k2, VStr index)] \<Rightarrow> Some (VList (take k (redis_get w url index)))
      | _ \<Rightarrow> None)"

definition lib_search :: "val list \<Rightarrow> (string \<times> val) list \<Rightarrow> demo_world \<Rightarrow> (val + val) \<times> demo_world" where
  "lib_search as ks w =
     (case as of
        [vectordb, VStr query] \<Rightarrow>
          (case search vectordb (case map_of ks ''k'' of Some (VInt k) \<Rightarrow> nat k | _ \<Rightarrow> 4) w of
             Some docs \<Rightarrow> (Inr docs, w)
           | None \<Rightarrow> (Inl (exception ''TypeError''), w))
      | _ \<Rightarrow> (Inl (exception ''TypeError''), w))"

text \<open>
  The model of this instance answers a prompt with a text that shows the prompt. Two
  prompts are close when they agree on their first forty characters. With a cache
  installed, a prompt close to a cached one is answered from the cache, and any other
  is put to the model and its answer added to the cache; with none, the model is asked.
\<close>

definition toy_llm :: "string \<Rightarrow> string" where
  "toy_llm prompt = ''answer to: '' @ prompt"

definition close_to :: "string \<Rightarrow> string \<Rightarrow> bool" where
  "close_to p q = (take 40 p = take 40 q)"

definition cache_entry :: "val \<Rightarrow> (string \<times> string) option" where
  "cache_entry e = (case e of VList [VStr q, VStr a] \<Rightarrow> Some (q, a) | _ \<Rightarrow> None)"

fun cache_lookup :: "string \<Rightarrow> val list \<Rightarrow> string option" where
  "cache_lookup p [] = None"
| "cache_lookup p (e # es) =
     (case cache_entry e of
        Some (q, a) \<Rightarrow> (if close_to p q then Some a else cache_lookup p es)
      | None \<Rightarrow> cache_lookup p es)"

definition cache_url :: "val \<Rightarrow> string option" where
  "cache_url c =
     (case c of
        VObj c ks \<Rightarrow> (case map_of ks ''redis_url'' of Some (VStr url) \<Rightarrow> Some url | _ \<Rightarrow> None)
      | _ \<Rightarrow> None)"

definition ask :: "string \<Rightarrow> demo_world \<Rightarrow> demo_world" where
  "ask prompt w = w\<lparr>asked := asked w @ [prompt]\<rparr>"

definition llm_generate :: "val \<Rightarrow> string \<Rightarrow> demo_world \<Rightarrow> string \<times> demo_world" where
  "llm_generate c prompt w =
     (case cache_url c of
        None \<Rightarrow> (toy_llm prompt, ask prompt w)
      | Some url \<Rightarrow>
          (case cache_lookup prompt (cache_get w url) of
             Some a \<Rightarrow> (a, w)
           | None \<Rightarrow>
               (toy_llm prompt,
                ask prompt w\<lparr>cache := put url
                  (cache_get w url @ [VList [VStr prompt, VStr (toy_llm prompt)]]) (cache w)\<rparr>)))"

text \<open>Calling the question-answering chain: retrieve from the index, then generate.\<close>

definition chain_retriever :: "val \<Rightarrow> val option" where
  "chain_retriever chain =
     (case chain of
        VObj c ks \<Rightarrow>
          (case map_of ks ''retriever'' of Some (VObj c' [(k', vectordb)]) \<Rightarrow> Some vectordb | _ \<Rightarrow> None)
      | _ \<Rightarrow> None)"

definition lib_qa_call :: "val \<Rightarrow> val list \<Rightarrow> demo_world \<Rightarrow> (val + val) \<times> demo_world" where
  "lib_qa_call c as w =
     (case as of
        [chain, VDict [(VStr key, VStr query)]] \<Rightarrow>
          (case chain_retriever chain of
             None \<Rightarrow> (Inl (exception ''TypeError''), w)
           | Some vectordb \<Rightarrow>
               (case search vectordb 4 w of
                  None \<Rightarrow> (Inl (exception ''TypeError''), w)
                | Some docs \<Rightarrow>
                    (case llm_generate c query w of
                       (answer, w') \<Rightarrow>
                         (Inr (VDict [(VStr ''query'', VStr query), (VStr ''result'', VStr answer),
                                      (VStr ''source_documents'', docs)]), w'))))
      | _ \<Rightarrow> (Inl (exception ''TypeError''), w))"

text \<open>
  The chat history of this instance lives on the server at the client's default URL,
  under the key made of the prefix and the session id.
\<close>

definition default_url :: string where
  "default_url = ''redis://localhost:6379/0''"

definition history_key :: "val \<Rightarrow> string option" where
  "history_key h =
     (case h of
        VObj c ks \<Rightarrow>
          (case map_of ks ''key_prefix'' of
             Some (VStr p) \<Rightarrow>
               (case map_of ks ''session_id'' of Some (VStr sid) \<Rightarrow> Some (p @ sid) | _ \<Rightarrow> None)
           | _ \<Rightarrow> None)
      | _ \<Rightarrow> None)"

definition demo_messages :: "val \<Rightarrow> demo_world \<Rightarrow> val list" where
  "demo_messages h w =
     (case history_key h of None \<Rightarrow> [] | Some key \<Rightarrow> redis_get w default_url key)"

definition lib_clear :: "val list \<Rightarrow> demo_world \<Rightarrow> (val + val) \<times> demo_world" where
  "lib_clear as w =
     (case as of
        [h] \<Rightarrow>
          (case history_key h of
             None \<Rightarrow> (Inl (exception ''TypeError''), w)
           | Some key \<Rightarrow> (Inr VNone, redis_put w default_url key []))
      | _ \<Rightarrow> (Inl (exception ''TypeError''), w))"

text \<open>
  The memory of a chain, when it has one: the key its text goes under in the prompt,
  and the history it reads and appends to.
\<close>

definition chain_memory :: "val \<Rightarrow> (string \<times> val) option" where
  "chain_memory chain =
     (case chain of
        VObj c ks \<Rightarrow>
          (case map_of ks ''memory'' of
             Some (VObj c' ms) \<Rightarrow>
               (case (map_of ms ''memory_key'', map_of ms ''chat_memory'') of
                  (Some (VStr k), Some h) \<Rightarrow> Some (k, h)
                | _ \<Rightarrow> None)
           | _ \<Rightarrow> None)
      | _ \<Rightarrow> None)"

definition chain_template :: "val \<Rightarrow> string option" where
  "chain_template chain =
     (case chain of
        VObj c ks \<Rightarrow>
          (case map_of ks ''prompt'' of
             Some (VObj c' ps) \<Rightarrow>
               (case map_of ps ''template'' of Some (VStr T) \<Rightarrow> Some T | _ \<Rightarrow> None)
           | _ \<Rightarrow> None)
      | _ \<Rightarrow> None)"

text \<open>
  \<^verbatim>\<open>predict\<close>: the prompt is the chain's template filled with the inputs of the call,
  and with the text of the history when the chain has a memory; the inputs and the reply
  are then appended to the history.
\<close>

fun transcript :: "val list \<Rightarrow> string" where
  "transcript [] = []"
| "transcript (m # ms) = (case m of VStr t \<Rightarrow> t @ ''|'' @ transcript ms | _ \<Rightarrow> transcript ms)"

definition predict ::
  "val \<Rightarrow> val \<Rightarrow> (string \<times> val) list \<Rightarrow> demo_world \<Rightarrow> (val + val) \<times> demo_world" where
  "predict c chain inputs w =
     (case chain_template chain of
        None \<Rightarrow> (Inl (exception ''TypeError''), w)
      | Some T \<Rightarrow>
          (case chain_memory chain of
             None \<Rightarrow>
               (case fill inputs T of
                  None \<Rightarrow> (Inl (exception ''KeyError''), w)
                | Some prompt \<Rightarrow>
                    (case llm_generate c prompt w of (reply, w') \<Rightarrow> (Inr (VStr reply), w')))
           | Some (k, h) \<Rightarrow>
               (case history_key h of
                  None \<Rightarrow> (Inl (exception ''TypeError''), w)
                | Some key \<Rightarrow>
                    (case fill ((k, VStr (transcript (demo_messages h w))) # inputs) T of
                       None \<Rightarrow> (Inl (exception ''KeyError''), w)
                     | Some prompt \<Rightarrow>
                         (case llm_generate c prompt w of
                            (reply, w') \<Rightarrow>
                              (Inr (VStr reply),
                               redis_put w' default_url key
                                 (demo_messages h w' @ map snd inputs @ [VStr reply])))))))"

definition lib_predict :: "val \<Rightarrow> val list \<Rightarrow> (string \<times> val) list \<Rightarrow> demo_world \<Rightarrow> (val + val) \<times> demo_world" where
  "lib_predict c as ks w =
     (case as of
        [chain] \<Rightarrow> predict c chain ks w
      | _ \<Rightarrow> (Inl (exception ''TypeError''), w))"

text \<open>\<^verbatim>\<open>load_dotenv\<close> adds the variables of the \<^verbatim>\<open>.env\<close> file that are not set yet.\<close>

definition lib_load_dotenv :: "demo_world \<Rightarrow> (val + val) \<times> demo_world" where
  "lib_load_dotenv w = (Inr (VBool True), w\<lparr>environ := environ w @ dotenv_file w\<rparr>)"

text \<open>A constructor of this instance returns an object that holds its keyword arguments.\<close>

definition constructors :: "string list" where
  "constructors = [''SpacyTextSplitter'', ''VertexAIEmbeddings'', ''PromptTemplate'', ''VertexAI'',
     ''RetrievalQA.from_chain_type'', ''RedisSemanticCache'', ''LLMChain'',
     ''RedisChatMessageHistory'', ''ConversationBufferMemory'']"

definition procedures :: "string list" where
  "procedures = [''%pip install'', ''spacy.cli.download'', ''warnings.filterwarnings'']"

definition demo_lib :: "demo_world library" where
  "demo_lib c f as ks w =
     (if f = ''requests.get'' then lib_requests_get as w
      else if f = ''open'' then lib_open as w
      else if f = ''write'' then lib_write as w
      else if f = ''load'' then lib_load as w
      else if f = ''split_documents'' then lib_split_documents as w
      else if f = ''Redis.from_documents'' then lib_from_documents ks w
      else if f = ''similarity_search_with_score'' then lib_search as ks w
      else if f = ''max_marginal_relevance_search'' then lib_search as ks w
      else if f = ''__call__'' then lib_qa_call c as w
      else if f = ''predict'' then lib_predict c as ks w
      else if f = ''clear'' then lib_clear as w
      else if f = ''dotenv.load_dotenv'' then lib_load_dotenv w
      else if f = ''UnstructuredMarkdownLoader'' then lib_loader as w
      else if f = ''as_retriever'' then lib_as_retriever as w
      else if f \<in> set constructors then (Inr (VObj f ks), w)
      else if f \<in> set procedures then (Inr VNone, w)
      else (Inl (exception ''NameError''), w))"

text \<open>
  Worlds to start from. In each, both documents are on the web, and the chat history of
  the session holds two messages of an earlier run. In \<open>world_local\<close> the \<^verbatim>\<open>.env\<close> file
  names the local Redis server; in \<open>world_remote\<close> it names a server elsewhere, as the
  README asks for; in \<open>world_404\<close> the first document is answered with an error page.
\<close>

definition world_local :: demo_world where
  "world_local =
     \<lparr>web = [(aggs_url, 200, ''# Aggregations''), (query_syntax_url, 200, ''# Query syntax'')],
      files = [],
      dotenv_file = [(''REDIS_URL'', ''redis://localhost:6379'')],
      environ = [],
      redis = [((default_url, ''chat-history:vs-demo''), [VStr ''Hi, I am Eve.'', VStr ''Hello Eve.''])],
      cache = [],
      asked = []\<rparr>"

definition world_remote :: demo_world where
  "world_remote = world_local\<lparr>dotenv_file := [(''REDIS_URL'', ''redis://db.example.com:6380'')]\<rparr>"

definition world_404 :: demo_world where
  "world_404 = world_local\<lparr>web :=
     [(aggs_url, 404, ''404: Not Found''), (query_syntax_url, 200, ''# Query syntax'')]\<rparr>"


definition world_offline :: demo_world where
  "world_offline = world_local\<lparr>web := []\<rparr>"

text \<open>
  In \<open>world_warm\<close> the cache of the local server holds an entry that is close to every
  prompt of the two chat chains (their templates start alike).
\<close>

definition world_warm :: demo_world where
  "world_warm = world_local\<lparr>cache :=
     [(''redis://localhost:6379'', [VList [VStr template_no_memory, VStr ''a stale answer'']])]\<rparr>"

text \<open>A kernel in which a cache is installed, over an empty and over a warm cache.\<close>

definition cached_state :: "demo_world state" where
  "cached_state =
     \<lparr>globals = Map.empty,
      llm_cache = VObj ''RedisSemanticCache'' [(''redis_url'', VStr ''redis://localhost:6379'')],
      world = world_local, stdout = [], calls = []\<rparr>"

definition warm_state :: "demo_world state" where
  "warm_state = cached_state\<lparr>world := world_warm\<rparr>"

text \<open>The world of the instance without the entries of the cache.\<close>

definition demo_rest ::
  "demo_world \<Rightarrow> (string \<times> int \<times> string) list \<times> (string \<times> string) list \<times>
     (string \<times> string) list \<times> (string \<times> string) list \<times>
     ((string \<times> string) \<times> val list) list \<times> string list" where
  "demo_rest w = (web w, files w, dotenv_file w, environ w, redis w, asked w)"

section \<open>Properties of computations\<close>

text \<open>What holds of the state a computation ends in, when it ends normally.\<close>

definition on_success :: "('a, 'w) py \<Rightarrow> 'w state \<Rightarrow> ('w state \<Rightarrow> bool) \<Rightarrow> bool" where
  "on_success m s Q = (\<forall>u s'. m s = (Ok u, s') \<longrightarrow> Q s')"

text \<open>The computation ends normally, in the given state.\<close>

definition returns :: "('a, 'w) py \<Rightarrow> 'w state \<Rightarrow> 'w state \<Rightarrow> bool" where
  "returns m s s' = (\<exists>u. m s = (Ok u, s'))"

text \<open>The computation ends with the given exception, in the given state.\<close>

definition raises :: "('a, 'w) py \<Rightarrow> 'w state \<Rightarrow> error \<Rightarrow> 'w state \<Rightarrow> bool" where
  "raises m s e s' = (m s = (Raise e, s'))"

text \<open>
  A computation surfaces the failures of the library: started after calls that all
  returned, it either ends with every call having returned (normally, or with an
  exception of the interpreter), or it ends with the exception a library call raised,
  and that call is the last one issued.
\<close>

definition succeeded :: "call \<Rightarrow> bool" where
  "succeeded c = (case outcome c of Inl e \<Rightarrow> False | Inr v \<Rightarrow> True)"

fun library_error :: "'a result \<Rightarrow> val option" where
  "library_error (Raise (LibraryError e)) = Some e"
| "library_error r = None"

definition surfaces :: "('a, 'w) py \<Rightarrow> bool" where
  "surfaces m =
     (\<forall>s r s'. list_all succeeded (calls s) \<longrightarrow> m s = (r, s') \<longrightarrow>
        (case library_error r of
           None \<Rightarrow> list_all succeeded (calls s')
         | Some e \<Rightarrow>
             (\<exists>cs c. calls s' = cs @ [c] \<and> list_all succeeded cs \<and> outcome c = Inl e)))"

text \<open>The exception a pure operation of the interpreter raises is never a library's.\<close>

definition own_error :: "error + 'a \<Rightarrow> bool" where
  "own_error r = (case r of Inl (LibraryError e) \<Rightarrow> False | _ \<Rightarrow> True)"



text \<open>
  A computation runs without a cache: started with \<^verbatim>\<open>langchain.llm_cache\<close> set to None,
  it leaves it so, and every call it issues is made with None in effect.
\<close>

definition uncached :: "('a, 'w) py \<Rightarrow> bool" where
  "uncached m =
     (\<forall>s r s'. llm_cache s = VNone \<longrightarrow> m s = (r, s') \<longrightarrow>
        llm_cache s' = VNone \<and>
        (\<exists>new. calls s' = calls s @ new \<and> list_all (\<lambda>c. cache_seen c = VNone) new))"

text \<open>
  What a claim about the chat history assumes of the library: \<open>messages h w\<close> are the
  messages stored in the world \<open>w\<close> for the history object \<open>h\<close>; \<^verbatim>\<open>clear\<close> empties
  them, and a call to the function \<open>f\<close> leaves them as they are.
\<close>

definition clears :: "'w library \<Rightarrow> (val \<Rightarrow> 'w \<Rightarrow> val list) \<Rightarrow> bool" where
  "clears L messages =
     (\<forall>c h w v w'. L c ''clear'' [h] [] w = (Inr v, w') \<longrightarrow> messages h w' = [])"

definition preserves :: "'w library \<Rightarrow> (val \<Rightarrow> 'w \<Rightarrow> val list) \<Rightarrow> string \<Rightarrow> bool" where
  "preserves L messages f =
     (\<forall>c as ks w r w' h. L c f as ks w = (r, w') \<longrightarrow> messages h w' = messages h w)"

text \<open>
  The contract of a library for \<^verbatim>\<open>langchain.llm_cache = None\<close>, in terms of two
  observations of the world, the entries of the cache and the rest: a call made with
  None in effect leaves the entries as they are, and neither its outcome nor what it
  does to the rest depends on the entries.
\<close>

definition honours_none :: "'w library \<Rightarrow> ('w \<Rightarrow> 'e) \<Rightarrow> ('w \<Rightarrow> 'r) \<Rightarrow> bool" where
  "honours_none L entries rest =
     (\<forall>f as ks w r w'. L VNone f as ks w = (r, w') \<longrightarrow>
        entries w' = entries w \<and>
        (\<forall>v. rest v = rest w \<longrightarrow>
           fst (L VNone f as ks v) = r \<and> rest (snd (L VNone f as ks v)) = rest w'))"

text \<open>
  The worlds the calls of a history leave, one after each call, when the history is
  replayed from a world.
\<close>

fun worlds :: "'w library \<Rightarrow> 'w \<Rightarrow> call list \<Rightarrow> 'w list" where
  "worlds L w [] = []"
| "worlds L w (c # cs) =
     (case L (cache_seen c) (callee c) (pos_args c) (kw_args c) w of
        (r, w') \<Rightarrow> w' # worlds L w' cs)"

text \<open>
  A computation leaves the cache alone: started with \<^verbatim>\<open>langchain.llm_cache\<close> set to
  None, the world after each of its calls has the entries of the cache it started with,
  and the world it ends in is the one its last call left.
\<close>

definition quiet :: "'w library \<Rightarrow> ('w \<Rightarrow> 'e) \<Rightarrow> ('a, 'w) py \<Rightarrow> bool" where
  "quiet L entries m =
     (\<forall>s r s'. llm_cache s = VNone \<longrightarrow> m s = (r, s') \<longrightarrow>
        llm_cache s' = VNone \<and>
        (\<exists>new. calls s' = calls s @ new \<and>
           list_all (\<lambda>v. entries v = entries (world s)) (worlds L (world s) new) \<and>
           world s' = last (world s # worlds L (world s) new)))"

text \<open>
  A computation does not depend on the cache: started with \<^verbatim>\<open>langchain.llm_cache\<close>
  set to None in two states that have the same namespace and, but for the entries of
  the cache, the same world, it ends the same way in both, with the same calls and
  outcomes, and the same output.
\<close>

definition insensitive :: "('w \<Rightarrow> 'r) \<Rightarrow> ('a, 'w) py \<Rightarrow> bool" where
  "insensitive rest m =
     (\<forall>s t r s'. llm_cache s = VNone \<longrightarrow> llm_cache t = VNone \<longrightarrow>
        globals t = globals s \<longrightarrow> rest (world t) = rest (world s) \<longrightarrow> m s = (r, s') \<longrightarrow>
        (\<exists>t'. m t = (r, t') \<and> llm_cache s' = VNone \<and> llm_cache t' = VNone \<and>
           globals t' = globals s' \<and> rest (world t') = rest (world s') \<and>
           (\<exists>new out. calls s' = calls s @ new \<and> calls t' = calls t @ new \<and>
              stdout s' = stdout s @ out \<and> stdout t' = stdout t @ out)))"

text \<open>
  The contract of \<^verbatim>\<open>predict\<close> on a chain without memory, in terms of the prompts the
  remote model has been sent (an observation of the world): when the chain was built
  with no \<^verbatim>\<open>memory\<close> and with a prompt built from the template \<open>T\<close>, a call sends the
  model one prompt, \<open>T\<close> filled with the inputs of the call.
\<close>

definition formats :: "'w library \<Rightarrow> val \<Rightarrow> ('w \<Rightarrow> string list) \<Rightarrow> bool" where
  "formats L c sent =
     (\<forall>ps T p w0 w1 ks chain v0 v1 inputs P w r w'.
        L c ''PromptTemplate'' [] ps w0 = (Inr p, w1) \<longrightarrow>
        map_of ps ''template'' = Some (VStr T) \<longrightarrow>
        L c ''LLMChain'' [] ks v0 = (Inr chain, v1) \<longrightarrow>
        map_of ks ''prompt'' = Some p \<longrightarrow> map_of ks ''memory'' = None \<longrightarrow>
        fill inputs T = Some P \<longrightarrow>
        L c ''predict'' [chain] inputs w = (r, w') \<longrightarrow> sent w' = sent w @ [P])"

text \<open>
  The same behaviour of the model: two calls of \<^verbatim>\<open>predict\<close> on a chain that send the
  model the same one prompt have the same outcome.
\<close>

definition same_answers :: "'w library \<Rightarrow> val \<Rightarrow> ('w \<Rightarrow> string list) \<Rightarrow> bool" where
  "same_answers L c sent =
     (\<forall>chain ks P w1 r1 w1' w2 r2 w2'.
        L c ''predict'' [chain] ks w1 = (r1, w1') \<longrightarrow> sent w1' = sent w1 @ [P] \<longrightarrow>
        L c ''predict'' [chain] ks w2 = (r2, w2') \<longrightarrow> sent w2' = sent w2 @ [P] \<longrightarrow>
        r1 = r2)"

text \<open>
  What a cell \<^verbatim>\<open>result = qa(...); print(result['result'])\<close> under \<^verbatim>\<open>%%time\<close> prints,
  by the outcome of its call: the answer, when the call returned a dictionary that has
  one; and the namespace after an assignment \<^verbatim>\<open>x = f(...)\<close>, by the outcome of the call.
\<close>

definition answer_shown :: "val + val \<Rightarrow> val list" where
  "answer_shown r =
     (case r of
        Inl e \<Rightarrow> []
      | Inr v \<Rightarrow> (case py_getitem v (VStr ''result'') of Inl e \<Rightarrow> [] | Inr a \<Rightarrow> [a]))"

definition bound :: "string \<Rightarrow> val + val \<Rightarrow> (string \<rightharpoonup> val) \<Rightarrow> (string \<rightharpoonup> val)" where
  "bound x r g = (case r of Inl e \<Rightarrow> g | Inr v \<Rightarrow> g(x \<mapsto> v))"

text \<open>The notebook with the cell that installs the cache left out.\<close>

definition notebook_without_cache :: "magic \<Rightarrow> 'w library \<Rightarrow> (unit, 'w) py" where
  "notebook_without_cache M L = block [
     prerequisites L, data_preparation M L, question_answering M L,
     block [cell_40009aab L, cell_e33c66cb M L, cell_e36d5031 L, cell_a9f6f8f5 M L],
     chat_memory L]"

section \<open>Reasoning about runs\<close>

subsection \<open>Monad laws\<close>

lemma bind_assoc: "py_bind (py_bind m f) g = py_bind m (\<lambda>x. py_bind (f x) g)"
  by (rule ext) (simp add: py_bind_def split: prod.splits result.splits)

lemma bind_ret: "py_bind (ret x) f = f x"
  by (rule ext) (simp add: py_bind_def ret_def)

lemma bind_ret_right: "py_bind m ret = m"
  by (rule ext) (simp add: py_bind_def ret_def split: prod.splits result.splits)

subsection \<open>Programs as chains of primitive steps\<close>

text \<open>
  Each composite construct followed by a continuation is its parts followed by the
  continuation. Rewriting with these equations turns a program into a chain of library
  calls, variable accesses, pure operations and stores, in the order of evaluation.
\<close>

lemma cps_lit: "py_bind (lit v) k = k v"
  by (simp add: lit_def bind_ret)

lemma cps_eval_args:
  "py_bind (eval_args []) k = k []"
  "py_bind (eval_args (e # es)) k = py_bind e (\<lambda>v. py_bind (eval_args es) (\<lambda>vs. k (v # vs)))"
  by (simp_all add: bind_ret bind_assoc)

lemma cps_eval_kwargs:
  "py_bind (eval_kwargs []) k' = k' []"
  "py_bind (eval_kwargs ((n, e) # es)) k' =
     py_bind e (\<lambda>v. py_bind (eval_kwargs es) (\<lambda>vs. k' ((n, v) # vs)))"
  by (simp_all add: bind_ret bind_assoc)

lemma cps_call: "py_bind (call L f es kes) k =
   py_bind (eval_args es) (\<lambda>as. py_bind (eval_kwargs kes) (\<lambda>ks. py_bind (invoke L f as ks) k))"
  by (simp add: call_def bind_assoc)

lemma cps_getattr:
  "py_bind (getattr e name) k = py_bind e (\<lambda>v. py_bind (lift (py_getattr v name)) k)"
  by (simp add: getattr_def bind_assoc)

lemma cps_subscript:
  "py_bind (subscript e i) k = py_bind e (\<lambda>v. py_bind (lift (py_getitem v i)) k)"
  by (simp add: subscript_def bind_assoc)

lemma cps_len: "py_bind (len e) k = py_bind e (\<lambda>v. py_bind (lift (py_len v)) k)"
  by (simp add: len_def bind_assoc)

lemma cps_fstring:
  "py_bind (fstring []) k'' = k'' []"
  "py_bind (fstring (e # es)) k'' =
     py_bind e (\<lambda>v. py_bind (lift (py_format v)) (\<lambda>cs.
       py_bind (fstring es) (\<lambda>rest. k'' (cs @ rest))))"
  by (simp_all add: bind_ret bind_assoc)

lemma cps_fstr: "py_bind (fstr es) k = py_bind (fstring es) (\<lambda>cs. k (VStr cs))"
  by (simp add: fstr_def bind_assoc bind_ret)

lemma cps_dict1: "py_bind (dict1 n e) k = py_bind e (\<lambda>v. k (VDict [(n, v)]))"
  by (simp add: dict1_def bind_assoc bind_ret)

lemma cps_assign: "py_bind (assign x e) ku = py_bind e (\<lambda>v. py_bind (store x v) ku)"
  by (simp add: assign_def bind_assoc)

lemma cps_expr_stmt: "py_bind (expr_stmt e) ku = py_bind e (\<lambda>v. ku ())"
  by (simp add: expr_stmt_def bind_assoc bind_ret)

lemma cps_print: "py_bind (print e) ku = py_bind e (\<lambda>v. py_bind (emit v) ku)"
  by (simp add: print_def bind_assoc)

lemma cps_set_llm_cache:
  "py_bind (set_llm_cache e) ku = py_bind e (\<lambda>v. py_bind (store_llm_cache v) ku)"
  by (simp add: set_llm_cache_def bind_assoc)

lemma cps_extend_list: "py_bind (extend_list x e) ku =
   py_bind (var x) (\<lambda>r. py_bind (lift (list_items r)) (\<lambda>xs.
   py_bind e (\<lambda>a. py_bind (lift (iterate a)) (\<lambda>ys. py_bind (store x (VList (xs @ ys))) ku))))"
  by (simp add: extend_list_def bind_assoc)

lemma cps_block:
  "py_bind (block []) ku = ku ()"
  "py_bind (block (c # cs)) ku = py_bind c (\<lambda>u. py_bind (block cs) ku)"
  by (simp_all add: bind_ret bind_assoc)

lemma cps_def: "py_bind (def name) ku = py_bind (store name (function_object name)) ku"
  by (simp add: def_def assign_def lit_def bind_ret)

lemma cps_call_def2: "py_bind (call_def2 name body e1 e2) k =
   py_bind (var name) (\<lambda>f. py_bind (lift (callable name f)) (\<lambda>c.
   py_bind e1 (\<lambda>a. py_bind e2 (\<lambda>b. py_bind (body a b) k))))"
  by (simp add: call_def2_def bind_assoc)

lemma cps_download_file: "py_bind (download_file L url filename) k =
   py_bind (invoke L ''requests.get'' [url] [(''allow_redirects'', VBool True)]) (\<lambda>r.
   py_bind (invoke L ''open'' [filename, VStr ''wb''] []) (\<lambda>f.
   py_bind (lift (py_getattr r ''content'')) (\<lambda>c.
   py_bind (invoke L ''write'' [f, c] []) (\<lambda>n. k VNone))))"
  by (simp only: download_file_def cps_call cps_eval_args cps_eval_kwargs cps_lit cps_getattr
        bind_assoc bind_ret)

lemma cps_run_qa: "py_bind (run_qa L) ku =
   py_bind (var ''qa'') (\<lambda>qa. py_bind (var ''question'') (\<lambda>q.
   py_bind (invoke L ''__call__'' [qa, VDict [(VStr ''query'', q)]] []) (\<lambda>r.
   py_bind (store ''result'' r) (\<lambda>u. py_bind (var ''result'') (\<lambda>r'.
   py_bind (lift (py_getitem r' (VStr ''result''))) (\<lambda>a. py_bind (emit a) ku))))))"
  by (simp only: run_qa_def cps_block cps_assign cps_call cps_eval_args cps_eval_kwargs
        cps_dict1 cps_print cps_subscript unit_abs_eta_conv)

lemma cps_chat_turn: "py_bind (chat_turn L x) ku =
   py_bind (var ''chat'') (\<lambda>c.
   py_bind (invoke L ''predict'' [c] [(''human_input'', VStr x)]) (\<lambda>r.
   py_bind (store ''reply'' r) (\<lambda>u. py_bind (var ''reply'') (\<lambda>r'. py_bind (emit r') ku))))"
  by (simp only: chat_turn_def cps_block cps_assign cps_call cps_eval_args cps_eval_kwargs
        cps_lit cps_print unit_abs_eta_conv)

lemmas cps = cps_lit cps_eval_args cps_eval_kwargs cps_call cps_getattr cps_subscript cps_len
  cps_fstring cps_fstr cps_dict1 cps_assign cps_expr_stmt cps_print cps_set_llm_cache
  cps_extend_list cps_block cps_def cps_call_def2 cps_download_file cps_run_qa cps_chat_turn
  unit_abs_eta_conv

text \<open>The cells and sections, but for the four cells under \<^verbatim>\<open>%%time\<close>.\<close>

lemmas cells = cell_4bc70abe_def cell_5560214a_def cell_c4c7a4eb_def cell_7235d10e_def
  cell_db2cad70_def cell_a5830869_def cell_6dd861cc_def cell_eab9031e_def
  cell_d1bcb261_def cell_80dccb73_def cell_beb248a1_def cell_7bf0aa8e_def
  cell_e471f9cc_def cell_40009aab_def cell_e36d5031_def
  cell_b3c95687_def cell_9832e65c_def cell_e39ff809_def cell_54922686_def cell_2310d2a8_def
  cell_807c7c70_def cell_0706d1f6_def cell_bd12418b_def cell_8a50c708_def cell_c6c6e6bc_def
  cell_d2dfb571_def
  prerequisites_def data_preparation_def question_answering_def semantic_cache_def
  chat_without_memory_def chat_with_memory_def chat_memory_def notebook_def retrieval_qa_def
  notebook_without_cache_def

lemmas qa_cells = cell_67414866_def cell_e33c66cb_def cell_a9f6f8f5_def

text \<open>The body of a cell under \<^verbatim>\<open>%%time\<close> is a chain of steps of its own.\<close>

lemma timed_body:
  "time_magic M (run_qa L) = time_magic M (py_bind (run_qa L) ret)"
  "time_magic M (block bs) = time_magic M (py_bind (block bs) ret)"
  by (simp_all only: bind_ret_right)

lemmas timed_cells = cell_62489946_def qa_cells timed_body

subsection \<open>What each primitive step does\<close>

lemma bind_var: "py_bind (var x) k s =
   (case globals s x of None \<Rightarrow> (Raise (NameError x), s) | Some v \<Rightarrow> k v s)"
  by (simp add: py_bind_def var_def split: option.splits)

lemma bind_lift: "py_bind (lift r) k s = (case r of Inl e \<Rightarrow> (Raise e, s) | Inr v \<Rightarrow> k v s)"
  by (simp add: py_bind_def lift_def split: sum.splits)

lemma bind_store: "py_bind (store x v) k s = k () (s\<lparr>globals := (globals s)(x \<mapsto> v)\<rparr>)"
  by (simp add: py_bind_def store_def)

lemma bind_emit: "py_bind (emit v) k s = k () (s\<lparr>stdout := stdout s @ [v]\<rparr>)"
  by (simp add: py_bind_def emit_def)

lemma bind_store_llm_cache: "py_bind (store_llm_cache v) k s = k () (s\<lparr>llm_cache := v\<rparr>)"
  by (simp add: py_bind_def store_llm_cache_def)

lemma bind_invoke: "py_bind (invoke L f as ks) k s =
   (case L (llm_cache s) f as ks (world s) of
      (Inl e, w') \<Rightarrow> (Raise (LibraryError e),
          s\<lparr>world := w', calls := calls s @ [\<lparr>callee = f, pos_args = as, kw_args = ks,
                                  cache_seen = llm_cache s, outcome = Inl e\<rparr>]\<rparr>)
    | (Inr v, w') \<Rightarrow> k v (s\<lparr>world := w', calls := calls s @ [returned f as ks (llm_cache s) v]\<rparr>))"
  by (simp add: py_bind_def invoke_def returned_def split: prod.splits sum.splits)

lemma callable_Inr: "callable name f = Inr u \<longleftrightarrow> f = function_object name"
  by (simp add: callable_def)

lemma list_items_Inr: "list_items v = Inr xs \<longleftrightarrow> v = VList xs"
  by (cases v) auto

lemma bind_time_magic: "py_bind (time_magic M body) k s =
   (case body s of
      (Ok u, s') \<Rightarrow> k () s'
    | (Raise e, s') \<Rightarrow> (case M of Swallowing \<Rightarrow> k () s' | Propagating \<Rightarrow> (Raise e, s')))"
  by (simp add: py_bind_def time_magic_def split: prod.splits result.splits magic.splits)

lemma bound_other: "x \<noteq> y \<Longrightarrow> bound y r g x = g x"
  by (simp add: bound_def split: sum.splits)

text \<open>The bodies of the cells under \<^verbatim>\<open>%%time\<close>, run from a given state.\<close>

lemma run_qa_run:
  assumes "g ''qa'' = Some qa" and "g ''question'' = Some q"
    and "L c ''__call__'' [qa, VDict [(VStr ''query'', q)]] [] w = (r, w')"
  shows "run_qa L \<lparr>globals = g, llm_cache = c, world = w, stdout = out, calls = cs\<rparr> =
    (case r of
       Inl e \<Rightarrow> Raise (LibraryError e)
     | Inr v \<Rightarrow> (case py_getitem v (VStr ''result'') of Inl e \<Rightarrow> Raise e | Inr a \<Rightarrow> Ok ()),
     \<lparr>globals = bound ''result'' r g, llm_cache = c, world = w', stdout = out @ answer_shown r,
      calls = cs @ [\<lparr>callee = ''__call__'', pos_args = [qa, VDict [(VStr ''query'', q)]],
                      kw_args = [], cache_seen = c, outcome = r\<rparr>]\<rparr>)"
proof -
  have "run_qa L \<lparr>globals = g, llm_cache = c, world = w, stdout = out, calls = cs\<rparr> =
      py_bind (run_qa L) ret \<lparr>globals = g, llm_cache = c, world = w, stdout = out, calls = cs\<rparr>"
    by (simp only: bind_ret_right)
  with assms show ?thesis
    by (simp add: cps_run_qa bind_var bind_invoke bind_store bind_lift bind_emit ret_def
        bound_def answer_shown_def returned_def split: sum.splits)
qed

lemma index_run:
  assumes "g ''splits'' = Some sp" and "g ''embedding'' = Some em"
    and "L c ''Redis.from_documents'' []
           [(''documents'', sp), (''embedding'', em), (''index_name'', VStr ''redis-vs-docs'')] w =
         (r, w')"
  shows "block [assign ''vectordb'' (call L ''Redis.from_documents'' []
       [(''documents'', var ''splits''), (''embedding'', var ''embedding''),
        (''index_name'', lit (VStr ''redis-vs-docs''))])]
      \<lparr>globals = g, llm_cache = c, world = w, stdout = out, calls = cs\<rparr> =
    (case r of Inl e \<Rightarrow> Raise (LibraryError e) | Inr v \<Rightarrow> Ok (),
     \<lparr>globals = bound ''vectordb'' r g, llm_cache = c, world = w', stdout = out,
      calls = cs @ [\<lparr>callee = ''Redis.from_documents'', pos_args = [],
                      kw_args = [(''documents'', sp), (''embedding'', em),
                                 (''index_name'', VStr ''redis-vs-docs'')],
                      cache_seen = c, outcome = r\<rparr>]\<rparr>)"
proof -
  let ?body = "block [assign ''vectordb'' (call L ''Redis.from_documents'' []
       [(''documents'', var ''splits''), (''embedding'', var ''embedding''),
        (''index_name'', lit (VStr ''redis-vs-docs''))])]"
  have "?body = py_bind ?body ret"
    by (simp only: bind_ret_right)
  also have "\<dots> = py_bind (var ''splits'') (\<lambda>sp. py_bind (var ''embedding'') (\<lambda>em.
      py_bind (invoke L ''Redis.from_documents'' []
        [(''documents'', sp), (''embedding'', em), (''index_name'', VStr ''redis-vs-docs'')])
      (\<lambda>v. py_bind (store ''vectordb'' v) ret)))"
    by (simp only: cps)
  finally show ?thesis
    using assms
    by (simp add: bind_var bind_invoke bind_store ret_def bound_def returned_def
        split: sum.splits)
qed

subsection \<open>Runs that end normally, for every library\<close>

lemma on_successD: "on_success m s Q \<Longrightarrow> m s = (Ok u, s') \<Longrightarrow> Q s'"
  by (simp add: on_success_def)

lemma on_success_start: "on_success (py_bind m ret) s Q \<Longrightarrow> on_success m s Q"
  by (simp add: bind_ret_right)

lemma on_success_ret: "Q s \<Longrightarrow> on_success (ret x) s Q"
  by (simp add: on_success_def ret_def)

lemma on_success_invoke:
  "(\<And>v w'. L c f as ks w = (Inr v, w') \<Longrightarrow>
      on_success (k v) \<lparr>globals = g, llm_cache = c, world = w', stdout = out,
                        calls = cs @ [returned f as ks c v]\<rparr> Q) \<Longrightarrow>
   on_success (py_bind (invoke L f as ks) k)
     \<lparr>globals = g, llm_cache = c, world = w, stdout = out, calls = cs\<rparr> Q"
  by (auto simp: on_success_def bind_invoke split: prod.splits sum.splits)

lemma on_success_call:
  "(\<And>v w'. on_success (k v) \<lparr>globals = g, llm_cache = c, world = w', stdout = out,
                        calls = cs @ [returned f as ks c v]\<rparr> Q) \<Longrightarrow>
   on_success (py_bind (invoke L f as ks) k)
     \<lparr>globals = g, llm_cache = c, world = w, stdout = out, calls = cs\<rparr> Q"
  by (rule on_success_invoke)

lemma on_success_unbound:
  "g x = None \<Longrightarrow>
   on_success (py_bind (var x) k)
     \<lparr>globals = g, llm_cache = c, world = w, stdout = out, calls = cs\<rparr> Q"
  by (simp add: on_success_def bind_var)

text \<open>
  The cell that builds the index, under \<^verbatim>\<open>%%time\<close>: the run goes on when the call
  returned, and also, under a magic that swallows, when it raised.
\<close>

lemma on_success_index:
  assumes "g ''splits'' = Some sp" and "g ''embedding'' = Some em"
    and "\<And>e w'. on_success (k ())
           \<lparr>globals = g, llm_cache = c, world = w', stdout = out,
            calls = cs @ [\<lparr>callee = ''Redis.from_documents'', pos_args = [],
                      kw_args = [(''documents'', sp), (''embedding'', em),
                                 (''index_name'', VStr ''redis-vs-docs'')],
                      cache_seen = c, outcome = Inl e\<rparr>]\<rparr> Q"
    and "\<And>v w'. on_success (k ())
           \<lparr>globals = g(''vectordb'' \<mapsto> v), llm_cache = c, world = w', stdout = out,
            calls = cs @ [returned ''Redis.from_documents'' []
              [(''documents'', sp), (''embedding'', em), (''index_name'', VStr ''redis-vs-docs'')]
              c v]\<rparr> Q"
  shows "on_success (py_bind (cell_62489946 M L) k)
     \<lparr>globals = g, llm_cache = c, world = w, stdout = out, calls = cs\<rparr> Q"
proof -
  obtain r w' where L: "L c ''Redis.from_documents'' []
           [(''documents'', sp), (''embedding'', em), (''index_name'', VStr ''redis-vs-docs'')] w =
         (r, w')"
    by (cases "L c ''Redis.from_documents'' []
           [(''documents'', sp), (''embedding'', em), (''index_name'', VStr ''redis-vs-docs'')] w")
  show ?thesis
  proof (cases r)
    case (Inl e)
    with assms(3) [of w' e] index_run [where g = g and L = L and c = c and w = w and out = out and cs = cs, OF assms(1,2) L] show ?thesis
      by (auto simp: on_success_def bind_time_magic cell_62489946_def bound_def
          split: magic.splits)
  next
    case (Inr v)
    with assms(4) [of v w'] index_run [where g = g and L = L and c = c and w = w and out = out and cs = cs, OF assms(1,2) L] show ?thesis
      by (auto simp: on_success_def bind_time_magic cell_62489946_def bound_def returned_def)
  qed
qed

text \<open>
  A question-answering cell under \<^verbatim>\<open>%%time\<close>: whatever the outcome of the call,
  the run goes on, unless the magic lets an exception through.
\<close>

lemma on_success_timed_qa:
  assumes "g ''qa'' = Some qa" and "g ''question'' = Some q"
    and "\<And>r w'. M = Propagating \<longrightarrow> answer_shown r \<noteq> [] \<Longrightarrow>
           on_success (k ())
           \<lparr>globals = bound ''result'' r g, llm_cache = c, world = w',
            stdout = out @ answer_shown r,
            calls = cs @ [\<lparr>callee = ''__call__'', pos_args = [qa, VDict [(VStr ''query'', q)]],
                           kw_args = [], cache_seen = c, outcome = r\<rparr>]\<rparr> Q"
  shows "on_success (py_bind (time_magic M (run_qa L)) k)
     \<lparr>globals = g, llm_cache = c, world = w, stdout = out, calls = cs\<rparr> Q"
proof -
  obtain r w' where L: "L c ''__call__'' [qa, VDict [(VStr ''query'', q)]] [] w = (r, w')"
    by (cases "L c ''__call__'' [qa, VDict [(VStr ''query'', q)]] [] w")
  have go: "on_success (k ())
           \<lparr>globals = bound ''result'' r g, llm_cache = c, world = w',
            stdout = out @ answer_shown r,
            calls = cs @ [\<lparr>callee = ''__call__'', pos_args = [qa, VDict [(VStr ''query'', q)]],
                           kw_args = [], cache_seen = c, outcome = r\<rparr>]\<rparr> Q"
    if "M = Propagating \<longrightarrow> answer_shown r \<noteq> []"
    using assms(3) [OF that] .
  show ?thesis
    using go run_qa_run [where g = g and L = L and c = c and w = w and out = out and cs = cs, OF assms(1,2) L]
    by (cases M; cases r)
      (auto simp: on_success_def bind_time_magic answer_shown_def split: sum.splits)
qed

lemma on_success_var:
  "g x = Some v \<Longrightarrow>
   on_success (k v) \<lparr>globals = g, llm_cache = c, world = w, stdout = out, calls = cs\<rparr> Q \<Longrightarrow>
   on_success (py_bind (var x) k)
     \<lparr>globals = g, llm_cache = c, world = w, stdout = out, calls = cs\<rparr> Q"
  by (simp add: on_success_def bind_var)

lemma on_success_lift:
  "(\<And>v. r = Inr v \<Longrightarrow> on_success (k v) s Q) \<Longrightarrow> on_success (py_bind (lift r) k) s Q"
  by (auto simp: on_success_def bind_lift split: sum.splits)

lemma on_success_store:
  "on_success (k ())
     \<lparr>globals = g(x \<mapsto> v), llm_cache = c, world = w, stdout = out, calls = cs\<rparr> Q \<Longrightarrow>
   on_success (py_bind (store x v) k)
     \<lparr>globals = g, llm_cache = c, world = w, stdout = out, calls = cs\<rparr> Q"
  by (simp add: on_success_def bind_store)

lemma on_success_emit:
  "on_success (k ())
     \<lparr>globals = g, llm_cache = c, world = w, stdout = out @ [v], calls = cs\<rparr> Q \<Longrightarrow>
   on_success (py_bind (emit v) k)
     \<lparr>globals = g, llm_cache = c, world = w, stdout = out, calls = cs\<rparr> Q"
  by (simp add: on_success_def bind_emit)

lemma on_success_store_llm_cache:
  "on_success (k ())
     \<lparr>globals = g, llm_cache = v, world = w, stdout = out, calls = cs\<rparr> Q \<Longrightarrow>
   on_success (py_bind (store_llm_cache v) k)
     \<lparr>globals = g, llm_cache = c, world = w, stdout = out, calls = cs\<rparr> Q"
  by (simp add: on_success_def bind_store_llm_cache)

text \<open>Looking a name up in the global namespace.\<close>

lemmas lookup = fun_upd_apply list.inject list.distinct char.inject simp_thms if_True if_False
  option.inject bound_other

subsection \<open>Runs on the library instance\<close>

lemma returnsD: "returns m s s' \<Longrightarrow> fst (m s) = Ok u \<and> snd (m s) = s'" for u :: unit
  by (auto simp: returns_def)

lemma returns_unit: "returns m s s' = (m s = (Ok (), s'))" for m :: "(unit, 'w) py"
  by (simp add: returns_def)

lemma returns_start: "returns (py_bind m ret) s s' \<Longrightarrow> returns m s s'"
  by (simp add: bind_ret_right)

lemma returns_ret: "returns (ret x) s s"
  by (simp add: returns_def ret_def)

lemma returns_invoke:
  "L c f as ks w = r \<Longrightarrow> r = (Inr v, w') \<Longrightarrow>
   returns (k v) \<lparr>globals = g, llm_cache = c, world = w', stdout = out,
                     calls = cs @ [returned f as ks c v]\<rparr> s' \<Longrightarrow>
   returns (py_bind (invoke L f as ks) k)
     \<lparr>globals = g, llm_cache = c, world = w, stdout = out, calls = cs\<rparr> s'"
  by (auto simp: returns_def bind_invoke)

lemma returns_timed:
  "returns body s s1 \<Longrightarrow> returns (k ()) s1 s' \<Longrightarrow>
   returns (py_bind (time_magic M body) k) s s'"
  by (auto simp: returns_def bind_time_magic)

lemma returns_var:
  "g x = Some v \<Longrightarrow>
   returns (k v) \<lparr>globals = g, llm_cache = c, world = w, stdout = out, calls = cs\<rparr> s' \<Longrightarrow>
   returns (py_bind (var x) k)
     \<lparr>globals = g, llm_cache = c, world = w, stdout = out, calls = cs\<rparr> s'"
  by (simp add: returns_def bind_var)

lemma returns_lift:
  "r = Inr v \<Longrightarrow> returns (k v) s s' \<Longrightarrow> returns (py_bind (lift r) k) s s'"
  by (simp add: returns_def bind_lift)

lemma returns_store:
  "returns (k ())
     \<lparr>globals = g(x \<mapsto> v), llm_cache = c, world = w, stdout = out, calls = cs\<rparr> s' \<Longrightarrow>
   returns (py_bind (store x v) k)
     \<lparr>globals = g, llm_cache = c, world = w, stdout = out, calls = cs\<rparr> s'"
  by (simp add: returns_def bind_store)

lemma returns_emit:
  "returns (k ())
     \<lparr>globals = g, llm_cache = c, world = w, stdout = out @ [v], calls = cs\<rparr> s' \<Longrightarrow>
   returns (py_bind (emit v) k)
     \<lparr>globals = g, llm_cache = c, world = w, stdout = out, calls = cs\<rparr> s'"
  by (simp add: returns_def bind_emit)

lemma returns_store_llm_cache:
  "returns (k ())
     \<lparr>globals = g, llm_cache = v, world = w, stdout = out, calls = cs\<rparr> s' \<Longrightarrow>
   returns (py_bind (store_llm_cache v) k)
     \<lparr>globals = g, llm_cache = c, world = w, stdout = out, calls = cs\<rparr> s'"
  by (simp add: returns_def bind_store_llm_cache)

lemma raises_invoke:
  "L c f as ks w = r \<Longrightarrow> r = (Inl e, w') \<Longrightarrow>
   raises (py_bind (invoke L f as ks) k)
     \<lparr>globals = g, llm_cache = c, world = w, stdout = out, calls = cs\<rparr> (LibraryError e)
     \<lparr>globals = g, llm_cache = c, world = w', stdout = out,
        calls = cs @ [\<lparr>callee = f, pos_args = as, kw_args = ks, cache_seen = c, outcome = Inl e\<rparr>]\<rparr>"
  by (auto simp: raises_def bind_invoke)

lemma raises_after_invoke:
  "L c f as ks w = r \<Longrightarrow> r = (Inr v, w') \<Longrightarrow>
   raises (k v) \<lparr>globals = g, llm_cache = c, world = w', stdout = out,
                    calls = cs @ [returned f as ks c v]\<rparr> e s' \<Longrightarrow>
   raises (py_bind (invoke L f as ks) k)
     \<lparr>globals = g, llm_cache = c, world = w, stdout = out, calls = cs\<rparr> e s'"
  by (auto simp: raises_def bind_invoke)

lemma raises_after_var:
  "g x = Some v \<Longrightarrow>
   raises (k v) \<lparr>globals = g, llm_cache = c, world = w, stdout = out, calls = cs\<rparr> e s' \<Longrightarrow>
   raises (py_bind (var x) k)
     \<lparr>globals = g, llm_cache = c, world = w, stdout = out, calls = cs\<rparr> e s'"
  by (simp add: raises_def bind_var)

lemma raises_after_lift:
  "r = Inr v \<Longrightarrow> raises (k v) s e s' \<Longrightarrow> raises (py_bind (lift r) k) s e s'"
  by (simp add: raises_def bind_lift)

lemma raises_after_store:
  "raises (k ())
     \<lparr>globals = g(x \<mapsto> v), llm_cache = c, world = w, stdout = out, calls = cs\<rparr> e s' \<Longrightarrow>
   raises (py_bind (store x v) k)
     \<lparr>globals = g, llm_cache = c, world = w, stdout = out, calls = cs\<rparr> e s'"
  by (simp add: raises_def bind_store)

text \<open>Evaluating the library instance on given arguments.\<close>

lemma fill_no_memory:
  "fill [(''human_input'', VStr x)] template_no_memory =
     Some (take 198 template_no_memory @ x @ drop 211 template_no_memory)"
  by (simp add: fill_def template_no_memory_def)

lemma fill_memory:
  "fill [(''history'', VStr h), (''human_input'', VStr x)] template_memory =
     Some (take 301 template_memory @ h @ take 19 (drop 310 template_memory) @ x @
           drop 342 template_memory)"
  by (simp add: fill_def template_memory_def)

lemma urls: "query_syntax_url \<noteq> aggs_url" "aggs_url \<noteq> query_syntax_url"
  by (simp_all add: aggs_url_def query_syntax_url_def)

lemma close_questions: "close_to question_3 question_2" "\<not> close_to question_2 question_1"
  by (simp_all add: close_to_def question_1_def question_2_def question_3_def)

lemmas core = state.select_convs state.update_convs call.select_convs
  list.inject list.distinct char.inject val.inject val.distinct option.inject option.distinct
  sum.inject sum.distinct prod.inject simp_thms if_True if_False fun_upd_apply
  list.case val.case option.case sum.case prod.case
  map_of.simps append.simps append_Nil2 fst_conv snd_conv
  py_getattr.simps py_getitem.simps py_len.simps py_format.simps list_items.simps iterate.simps
  callable_def function_object_def

lemmas demo = demo_lib_def lib_requests_get_def lib_open_def lib_write_def lib_loader_def
  lib_load_def lib_split_documents_def store_url_def lib_from_documents_def lib_as_retriever_def
  search_def lib_search_def toy_llm_def cache_entry_def cache_url_def llm_generate_def
  chain_retriever_def lib_qa_call_def history_key_def demo_messages_def lib_clear_def
  chain_memory_def chain_template_def predict_def lib_predict_def lib_load_dotenv_def
  constructors_def procedures_def exception_def redis_get_def redis_put_def cache_get_def
  ask_def urls close_questions fill_no_memory fill_memory

lemmas eval = demo core demo_world.select_convs demo_world.update_convs put.simps
  cache_lookup.simps transcript.simps list.set insert_iff empty_iff list.map
  take_Cons_numeral take_Nil take_0 nat_numeral pred_numeral_simps arith_simps rel_simps

lemmas weak = prod.case_cong_weak sum.case_cong_weak option.case_cong_weak
  list.case_cong_weak val.case_cong_weak if_weak_cong

lemmas worlds = fresh_def cached_state_def warm_state_def world_local_def world_remote_def
  world_404_def world_offline_def world_warm_def

section \<open>The claims\<close>


subsection \<open>Runs without a cache\<close>

lemma uncached_bind: "uncached m \<Longrightarrow> (\<And>x. uncached (k x)) \<Longrightarrow> uncached (py_bind m k)"
  unfolding uncached_def
proof (intro allI impI)
  fix s r s'
  assume m: "\<forall>s r s'. llm_cache s = VNone \<longrightarrow> m s = (r, s') \<longrightarrow> llm_cache s' = VNone \<and>
      (\<exists>new. calls s' = calls s @ new \<and> list_all (\<lambda>c. cache_seen c = VNone) new)"
    and k: "\<And>x. \<forall>s r s'. llm_cache s = VNone \<longrightarrow> k x s = (r, s') \<longrightarrow> llm_cache s' = VNone \<and>
      (\<exists>new. calls s' = calls s @ new \<and> list_all (\<lambda>c. cache_seen c = VNone) new)"
    and s: "llm_cache s = VNone" and run: "py_bind m k s = (r, s')"
  obtain r1 s1 where m1: "m s = (r1, s1)" by (cases "m s")
  from m s m1 obtain new1 where c1: "llm_cache s1 = VNone" "calls s1 = calls s @ new1"
      "list_all (\<lambda>c. cache_seen c = VNone) new1" by blast
  show "llm_cache s' = VNone \<and>
      (\<exists>new. calls s' = calls s @ new \<and> list_all (\<lambda>c. cache_seen c = VNone) new)"
  proof (cases r1)
    case (Ok x)
    with run m1 have "k x s1 = (r, s')" by (simp add: py_bind_def)
    with k c1(1) obtain new2 where "llm_cache s' = VNone" "calls s' = calls s1 @ new2"
      "list_all (\<lambda>c. cache_seen c = VNone) new2" by blast
    with c1 show ?thesis by auto
  next
    case (Raise e)
    with run m1 have "s' = s1" by (simp add: py_bind_def)
    with c1 show ?thesis by auto
  qed
qed

lemma uncached_ret: "uncached (ret x)"
  by (simp add: uncached_def ret_def)

lemma uncached_var: "uncached (var x)"
  by (auto simp: uncached_def var_def split: option.splits)

lemma uncached_lift: "uncached (lift r)"
  by (auto simp: uncached_def lift_def split: sum.splits)

lemma uncached_store: "uncached (store x v)"
  by (auto simp: uncached_def store_def)

lemma uncached_emit: "uncached (emit v)"
  by (auto simp: uncached_def emit_def)

lemma uncached_invoke: "uncached (invoke L f as ks)"
  by (auto simp: uncached_def invoke_def split: prod.splits)

lemma uncached_start: "uncached (py_bind m ret) \<Longrightarrow> uncached m"
  by (simp add: bind_ret_right)

lemmas uncached_intros = uncached_bind uncached_ret uncached_var uncached_lift uncached_store
  uncached_emit uncached_invoke

lemma chats_uncached: "uncached (block [chat_without_memory L, chat_with_memory L])"
  apply (rule uncached_start)
  apply (simp only: cells cps)
  apply (intro uncached_intros)
  done


subsection \<open>Runs that leave the cache alone\<close>

lemma worlds_append:
  "worlds L w (cs @ ds) = worlds L w cs @ worlds L (last (w # worlds L w cs)) ds"
  by (induction cs arbitrary: w) (auto split: prod.splits)

lemma quiet_bind:
  assumes m: "quiet L entries m" and k: "\<And>x. quiet L entries (k x)"
  shows "quiet L entries (py_bind m k)"
  unfolding quiet_def
proof (intro allI impI)
  fix s r s'
  assume s: "llm_cache s = VNone" and run: "py_bind m k s = (r, s')"
  obtain r1 s1 where m1: "m s = (r1, s1)" by (cases "m s")
  from m [unfolded quiet_def, rule_format, OF s m1]
  obtain new1 where c1: "llm_cache s1 = VNone" "calls s1 = calls s @ new1"
    "list_all (\<lambda>v. entries v = entries (world s)) (worlds L (world s) new1)"
    "world s1 = last (world s # worlds L (world s) new1)"
    by blast
  from c1(3,4) have same: "entries (world s1) = entries (world s)"
    by (cases "worlds L (world s) new1" rule: rev_cases) (auto simp: list_all_iff)
  show "llm_cache s' = VNone \<and>
      (\<exists>new. calls s' = calls s @ new \<and>
         list_all (\<lambda>v. entries v = entries (world s)) (worlds L (world s) new) \<and>
         world s' = last (world s # worlds L (world s) new))"
  proof (cases r1)
    case (Ok x)
    with run m1 have "k x s1 = (r, s')" by (simp add: py_bind_def)
    from k [unfolded quiet_def, rule_format, OF c1(1) this]
    obtain new2 where c2: "llm_cache s' = VNone" "calls s' = calls s1 @ new2"
      "list_all (\<lambda>v. entries v = entries (world s1)) (worlds L (world s1) new2)"
      "world s' = last (world s1 # worlds L (world s1) new2)"
      by blast
    have "calls s' = calls s @ (new1 @ new2)"
      using c1(2) c2(2) by simp
    moreover have "list_all (\<lambda>v. entries v = entries (world s)) (worlds L (world s) (new1 @ new2))"
      using c1(3,4) c2(3) same by (simp add: worlds_append)
    moreover have "world s' = last (world s # worlds L (world s) (new1 @ new2))"
      using c1(4) c2(4) by (simp add: worlds_append)
    ultimately show ?thesis
      using c2(1) by blast
  next
    case (Raise e)
    with run m1 have "s' = s1" by (simp add: py_bind_def)
    with c1 show ?thesis by blast
  qed
qed

lemma quiet_pure:
  assumes "\<And>s r s'. m s = (r, s') \<Longrightarrow>
    llm_cache s' = llm_cache s \<and> calls s' = calls s \<and> world s' = world s"
  shows "quiet L entries m"
  unfolding quiet_def
proof (intro allI impI)
  fix s r s'
  assume "llm_cache s = VNone" and "m s = (r, s')"
  with assms [of s r s'] have "llm_cache s' = VNone" "calls s' = calls s @ []"
    "list_all (\<lambda>v. entries v = entries (world s)) (worlds L (world s) [])"
    "world s' = last (world s # worlds L (world s) [])"
    by simp_all
  then show "llm_cache s' = VNone \<and>
      (\<exists>new. calls s' = calls s @ new \<and>
         list_all (\<lambda>v. entries v = entries (world s)) (worlds L (world s) new) \<and>
         world s' = last (world s # worlds L (world s) new))"
    by blast
qed

lemma quiet_ret: "quiet L entries (ret x)"
  by (rule quiet_pure) (simp add: ret_def)

lemma quiet_var: "quiet L entries (var x)"
  by (rule quiet_pure) (auto simp: var_def split: option.splits)

lemma quiet_lift: "quiet L entries (lift r)"
  by (rule quiet_pure) (auto simp: lift_def split: sum.splits)

lemma quiet_store: "quiet L entries (store x v)"
  by (rule quiet_pure) (auto simp: store_def)

lemma quiet_emit: "quiet L entries (emit v)"
  by (rule quiet_pure) (auto simp: emit_def)

lemma quiet_invoke:
  assumes "honours_none L entries rest"
  shows "quiet L entries (invoke L f as ks)"
  unfolding quiet_def
proof (intro allI impI)
  fix s r s'
  assume s: "llm_cache s = VNone" and run: "invoke L f as ks s = (r, s')"
  obtain o' w' where L: "L VNone f as ks (world s) = (o', w')"
    by (cases "L VNone f as ks (world s)")
  with assms have "entries w' = entries (world s)"
    unfolding honours_none_def by blast
  with s run L show "llm_cache s' = VNone \<and>
      (\<exists>new. calls s' = calls s @ new \<and>
         list_all (\<lambda>v. entries v = entries (world s)) (worlds L (world s) new) \<and>
         world s' = last (world s # worlds L (world s) new))"
    by (auto simp: invoke_def)
qed

lemma quiet_start: "quiet L entries (py_bind m ret) \<Longrightarrow> quiet L entries m"
  by (simp add: bind_ret_right)

lemma chats_quiet:
  assumes "honours_none L entries rest"
  shows "quiet L entries (block [chat_without_memory L, chat_with_memory L])"
  apply (rule quiet_start)
  apply (simp only: cells cps)
  apply (intro quiet_bind quiet_ret quiet_var quiet_lift quiet_store quiet_emit
      quiet_invoke [OF assms])
  done

subsection \<open>Runs that do not depend on the cache\<close>

lemma insensitive_bind:
  assumes m: "insensitive rest (m :: ('a, 'w) py)" and k: "\<And>x. insensitive rest (k x)"
  shows "insensitive rest (py_bind m k)"
  unfolding insensitive_def
proof (intro allI impI)
  fix s t :: "'w state" and r s'
  assume s: "llm_cache s = VNone" and t: "llm_cache t = VNone"
    and g: "globals t = globals s" and w: "rest (world t) = rest (world s)"
    and run: "py_bind m k s = (r, s')"
  obtain r1 s1 where m1: "m s = (r1, s1)" by (cases "m s")
  from m [unfolded insensitive_def, rule_format, OF s t g w m1]
  obtain t1 new1 out1 where c1: "m t = (r1, t1)" "llm_cache s1 = VNone" "llm_cache t1 = VNone"
    "globals t1 = globals s1" "rest (world t1) = rest (world s1)"
    "calls s1 = calls s @ new1" "calls t1 = calls t @ new1"
    "stdout s1 = stdout s @ out1" "stdout t1 = stdout t @ out1"
    by blast
  show "\<exists>t'. py_bind m k t = (r, t') \<and> llm_cache s' = VNone \<and> llm_cache t' = VNone \<and>
      globals t' = globals s' \<and> rest (world t') = rest (world s') \<and>
      (\<exists>new out. calls s' = calls s @ new \<and> calls t' = calls t @ new \<and>
         stdout s' = stdout s @ out \<and> stdout t' = stdout t @ out)"
  proof (cases r1)
    case (Ok x)
    with run m1 have "k x s1 = (r, s')" by (simp add: py_bind_def)
    from k [unfolded insensitive_def, rule_format, OF c1(2,3,4,5) this]
    obtain t' new2 out2 where c2: "k x t1 = (r, t')" "llm_cache s' = VNone"
      "llm_cache t' = VNone" "globals t' = globals s'" "rest (world t') = rest (world s')"
      "calls s' = calls s1 @ new2" "calls t' = calls t1 @ new2"
      "stdout s' = stdout s1 @ out2" "stdout t' = stdout t1 @ out2"
      by blast
    have "py_bind m k t = (r, t')"
      using c1(1) c2(1) Ok by (simp add: py_bind_def)
    moreover have "calls s' = calls s @ (new1 @ new2)" "calls t' = calls t @ (new1 @ new2)"
      "stdout s' = stdout s @ (out1 @ out2)" "stdout t' = stdout t @ (out1 @ out2)"
      using c1 c2 by simp_all
    ultimately show ?thesis
      using c2(2-5) by blast
  next
    case (Raise e)
    with run m1 c1(1) have "s' = s1" "r = Raise e" "py_bind m k t = (r, t1)"
      by (simp_all add: py_bind_def)
    with c1 show ?thesis by blast
  qed
qed

lemma insensitive_ret: "insensitive rest (ret x)"
  unfolding insensitive_def ret_def by (intro allI impI) (rule exI, auto)

lemma insensitive_var: "insensitive rest (var x)"
  unfolding insensitive_def var_def
  by (intro allI impI) (rule exI, auto split: option.splits)

lemma insensitive_lift: "insensitive rest (lift r)"
  unfolding insensitive_def lift_def
  by (intro allI impI) (rule exI, auto split: sum.splits)

lemma insensitive_store: "insensitive rest (store x v)"
  unfolding insensitive_def store_def
  by (intro allI impI) (rule exI, auto)

lemma insensitive_emit: "insensitive rest (emit v)"
  unfolding insensitive_def emit_def
  by (intro allI impI) (rule exI, auto)

lemma insensitive_invoke:
  assumes "honours_none (L :: 'w library) entries rest"
  shows "insensitive rest (invoke L f as ks)"
  unfolding insensitive_def
proof (intro allI impI)
  fix s t :: "'w state" and r s'
  assume s: "llm_cache s = VNone" and t: "llm_cache t = VNone"
    and g: "globals t = globals s" and w: "rest (world t) = rest (world s)"
    and run: "invoke L f as ks s = (r, s')"
  obtain o' w' where L: "L VNone f as ks (world s) = (o', w')"
    by (cases "L VNone f as ks (world s)")
  obtain o'' w'' where L': "L VNone f as ks (world t) = (o'', w'')"
    by (cases "L VNone f as ks (world t)")
  from assms L w L' have "o'' = o'" "rest w'' = rest w'"
    unfolding honours_none_def by (metis fst_conv, metis snd_conv)
  with s t g run L L' show "\<exists>t'. invoke L f as ks t = (r, t') \<and> llm_cache s' = VNone \<and>
      llm_cache t' = VNone \<and> globals t' = globals s' \<and> rest (world t') = rest (world s') \<and>
      (\<exists>new out. calls s' = calls s @ new \<and> calls t' = calls t @ new \<and>
         stdout s' = stdout s @ out \<and> stdout t' = stdout t @ out)"
    by (auto simp: invoke_def)
qed

lemma insensitive_start: "insensitive rest (py_bind m ret) \<Longrightarrow> insensitive rest m"
  by (simp add: bind_ret_right)

lemma chats_insensitive:
  assumes "honours_none L entries rest"
  shows "insensitive rest (block [chat_without_memory L, chat_with_memory L])"
  apply (rule insensitive_start)
  apply (simp only: cells cps)
  apply (intro insensitive_bind insensitive_ret insensitive_var insensitive_lift
      insensitive_store insensitive_emit insensitive_invoke [OF assms])
  done


subsection \<open>The library instance honours None\<close>

text \<open>With no cache installed, a call of the instance commutes with a change of the cache.\<close>

lemma demo_commutes:
  "demo_lib VNone f as ks (w\<lparr>cache := x\<rparr>) =
     (fst (demo_lib VNone f as ks w), (snd (demo_lib VNone f as ks w))\<lparr>cache := x\<rparr>)"
proof -
  have gen: "llm_generate VNone p (w\<lparr>cache := x\<rparr>) =
      (fst (llm_generate VNone p w), (snd (llm_generate VNone p w))\<lparr>cache := x\<rparr>)" for p w
    by (simp add: llm_generate_def cache_url_def ask_def)
  have msgs: "demo_messages h (w\<lparr>cache := x\<rparr>) = demo_messages h w" for h w
    by (simp add: demo_messages_def redis_get_def split: option.splits)
  have predict: "predict VNone chain ks (w\<lparr>cache := x\<rparr>) =
      (fst (predict VNone chain ks w), (snd (predict VNone chain ks w))\<lparr>cache := x\<rparr>)" for chain
    by (simp add: predict_def gen msgs redis_put_def split: option.splits prod.splits)
  have search: "search db k (w\<lparr>cache := x\<rparr>) = search db k w" for db k
    by (simp add: search_def redis_get_def split: val.splits list.splits prod.splits)
  have qa: "lib_qa_call VNone as (w\<lparr>cache := x\<rparr>) =
      (fst (lib_qa_call VNone as w), (snd (lib_qa_call VNone as w))\<lparr>cache := x\<rparr>)"
    by (simp add: lib_qa_call_def gen search split: list.splits val.splits option.splits
        prod.splits)
  have get: "lib_requests_get as (w\<lparr>cache := x\<rparr>) =
      (fst (lib_requests_get as w), (snd (lib_requests_get as w))\<lparr>cache := x\<rparr>)"
    by (simp add: lib_requests_get_def split: list.splits val.splits option.splits prod.splits)
  have "open": "lib_open as (w\<lparr>cache := x\<rparr>) =
      (fst (lib_open as w), (snd (lib_open as w))\<lparr>cache := x\<rparr>)"
    by (simp add: lib_open_def split: list.splits val.splits)
  have "write": "lib_write as (w\<lparr>cache := x\<rparr>) =
      (fst (lib_write as w), (snd (lib_write as w))\<lparr>cache := x\<rparr>)"
    by (simp add: lib_write_def split: list.splits val.splits prod.splits)
  have loader: "lib_loader as (w\<lparr>cache := x\<rparr>) =
      (fst (lib_loader as w), (snd (lib_loader as w))\<lparr>cache := x\<rparr>)"
    by (simp add: lib_loader_def split: list.splits val.splits)
  have load: "lib_load as (w\<lparr>cache := x\<rparr>) =
      (fst (lib_load as w), (snd (lib_load as w))\<lparr>cache := x\<rparr>)"
    by (simp add: lib_load_def split: list.splits val.splits option.splits prod.splits)
  have split: "lib_split_documents as (w\<lparr>cache := x\<rparr>) =
      (fst (lib_split_documents as w), (snd (lib_split_documents as w))\<lparr>cache := x\<rparr>)"
    by (simp add: lib_split_documents_def split: list.splits val.splits)
  have store: "lib_from_documents ks (w\<lparr>cache := x\<rparr>) =
      (fst (lib_from_documents ks w), (snd (lib_from_documents ks w))\<lparr>cache := x\<rparr>)"
    by (simp add: lib_from_documents_def store_url_def redis_put_def
        split: val.splits option.splits)
  have retriever: "lib_as_retriever as (w\<lparr>cache := x\<rparr>) =
      (fst (lib_as_retriever as w), (snd (lib_as_retriever as w))\<lparr>cache := x\<rparr>)"
    by (simp add: lib_as_retriever_def split: list.splits)
  have lsearch: "lib_search as ks (w\<lparr>cache := x\<rparr>) =
      (fst (lib_search as ks w), (snd (lib_search as ks w))\<lparr>cache := x\<rparr>)"
    by (simp add: lib_search_def search split: list.splits val.splits option.splits)
  have lpredict: "lib_predict VNone as ks (w\<lparr>cache := x\<rparr>) =
      (fst (lib_predict VNone as ks w), (snd (lib_predict VNone as ks w))\<lparr>cache := x\<rparr>)"
    by (simp add: lib_predict_def predict split: list.splits)
  have clear: "lib_clear as (w\<lparr>cache := x\<rparr>) =
      (fst (lib_clear as w), (snd (lib_clear as w))\<lparr>cache := x\<rparr>)"
    by (simp add: lib_clear_def redis_put_def split: list.splits option.splits)
  have dotenv: "lib_load_dotenv (w\<lparr>cache := x\<rparr>) =
      (fst (lib_load_dotenv w), (snd (lib_load_dotenv w))\<lparr>cache := x\<rparr>)"
    by (simp add: lib_load_dotenv_def)
  have step: "(if b then A else B) =
      (fst (if b then A' else B'), (snd (if b then A' else B'))\<lparr>cache := x\<rparr>)"
    if "A = (fst A', (snd A')\<lparr>cache := x\<rparr>)" and "B = (fst B', (snd B')\<lparr>cache := x\<rparr>)"
    for b and A B A' B' :: "(val + val) \<times> demo_world"
    using that by simp
  show ?thesis
    unfolding demo_lib_def
    apply (intro step)
    apply (rule get "open" "write" loader load split store retriever lsearch lpredict clear
        dotenv qa | simp)+
    done
qed

lemma demo_honours_none: "honours_none demo_lib cache demo_rest"
  unfolding honours_none_def
proof (intro allI impI conjI)
  fix f as ks w r w'
  assume run: "demo_lib VNone f as ks w = (r, w')"
  from demo_commutes [where f = f and as = as and ks = ks and w = w and x = "cache w"] run show "cache w' = cache w"
    by (cases w') (auto simp: prod_eq_iff)
  fix v
  assume "demo_rest v = demo_rest w"
  then have v: "v = w\<lparr>cache := cache v\<rparr>"
    by (cases v; cases w) (simp add: demo_rest_def)
  from demo_commutes [where f = f and as = as and ks = ks and w = w and x = "cache v"] run v
  show "fst (demo_lib VNone f as ks v) = r"
    and "demo_rest (snd (demo_lib VNone f as ks v)) = demo_rest w'"
    by (simp_all add: demo_rest_def)
qed


lemma warm_chat_run:
  "\<exists>s'. returns (chat_memory demo_lib) warm_state s' \<and>
     length (calls s') = 17 \<and>
     Inr (VStr ''a stale answer'') \<notin> set (map outcome (calls s'))"
  apply (rule exI, rule conjI)
   apply (rule returns_start)
   apply (simp only: cells cps worlds state.update_convs demo_world.update_convs)
   apply ((rule returns_store returns_emit returns_store_llm_cache returns_ret
         | (rule returns_invoke, (simp only: eval cong: weak; fail), rule refl)
         | (rule returns_lift, (simp only: eval cong: weak; fail))
         | (rule returns_var, (simp only: lookup; fail)))+)
  apply (simp only: state.select_convs append.simps list.map call.select_convs returned_def)
  apply (simp add: toy_llm_def)
  done

lemma last_all: "list_all P xs \<Longrightarrow> P x \<Longrightarrow> P (last (x # xs))"
  by (cases xs rule: rev_cases) (auto simp: list_all_iff)

text \<open>
  Claim C8. The first cell of the chat-memory section sets \<^verbatim>\<open>langchain.llm_cache\<close> to
  None and changes nothing else: the global namespace (with the vector store and the
  question-answering chain), the world (with the vector index), the output and the
  history of calls are as before. In every run of the section, from any state and
  whatever its outcome, the attribute is None at the end and every library call the
  section issues, each \<^verbatim>\<open>predict\<close> of the two chat chains among them, is made with
  None in effect. If the library keeps its contract for None, then no call of the
  section writes a cache entry (the world after each call has the entries the section
  started with), and no call is answered from the cache: started in any other state
  that has the same namespace and, but for the entries of the cache, the same world,
  the section issues the same calls, with the same outcomes, prints the same, and ends
  the same way.
\<close>

theorem chat_memory_bypasses_cache:
  "cell_b3c95687 L s = (Ok (), s\<lparr>llm_cache := VNone\<rparr>) \<and>
   (\<forall>r s'. chat_memory L s = (r, s') \<longrightarrow>
      llm_cache s' = VNone \<and> list_all (\<lambda>c. cache_seen c = VNone) (new_calls s s') \<and>
      (honours_none L entries rest \<longrightarrow>
         list_all (\<lambda>v. entries v = entries (world s)) (worlds L (world s) (new_calls s s')) \<and>
         world s' = last (world s # worlds L (world s) (new_calls s s')) \<and>
         (\<forall>t. globals t = globals s \<longrightarrow> rest (world t) = rest (world s) \<longrightarrow>
            (\<exists>t'. chat_memory L t = (r, t') \<and> new_calls t t' = new_calls s s' \<and>
               drop (length (stdout t)) (stdout t') = drop (length (stdout s)) (stdout s')))))"
proof (intro conjI allI impI)
  have cell: "cell_b3c95687 L s = (Ok (), s\<lparr>llm_cache := VNone\<rparr>)" for s :: "'a state"
    by (simp add: cell_b3c95687_def set_llm_cache_def lit_def bind_ret store_llm_cache_def
        py_bind_def ret_def)
  show "cell_b3c95687 L s = (Ok (), s\<lparr>llm_cache := VNone\<rparr>)"
    by (rule cell)
  have split: "chat_memory L =
      py_bind (cell_b3c95687 L) (\<lambda>u. block [chat_without_memory L, chat_with_memory L])"
    by (simp add: chat_memory_def)
  have rest: "chat_memory L s = block [chat_without_memory L, chat_with_memory L]
      (s\<lparr>llm_cache := VNone\<rparr>)" for s :: "'a state"
    by (simp add: split cell py_bind_def)
  fix r s'
  assume run: "chat_memory L s = (r, s')"
  then have run': "block [chat_without_memory L, chat_with_memory L] (s\<lparr>llm_cache := VNone\<rparr>) =
      (r, s')"
    by (simp add: rest)
  have none: "llm_cache (s\<lparr>llm_cache := VNone\<rparr>) = VNone"
    by simp
  from chats_uncached [unfolded uncached_def, rule_format, OF none run']
  obtain new where "llm_cache s' = VNone" "calls s' = calls s @ new"
    "list_all (\<lambda>c. cache_seen c = VNone) new"
    by auto
  then show "llm_cache s' = VNone" "list_all (\<lambda>c. cache_seen c = VNone) (new_calls s s')"
    by (simp_all add: new_calls_def)
  assume contract: "honours_none L entries rest"
  from chats_quiet [OF contract, unfolded quiet_def, rule_format, OF none run']
  obtain new' where "calls s' = calls s @ new'"
    "list_all (\<lambda>v. entries v = entries (world s)) (worlds L (world s) new')"
    "world s' = last (world s # worlds L (world s) new')"
    by auto
  then show "list_all (\<lambda>v. entries v = entries (world s)) (worlds L (world s) (new_calls s s'))"
    "world s' = last (world s # worlds L (world s) (new_calls s s'))"
    by (simp_all add: new_calls_def)
  fix t :: "'a state"
  assume g: "globals t = globals s" and w: "rest (world t) = rest (world s)"
  have "llm_cache (t\<lparr>llm_cache := VNone\<rparr>) = VNone"
    "globals (t\<lparr>llm_cache := VNone\<rparr>) = globals (s\<lparr>llm_cache := VNone\<rparr>)"
    "rest (world (t\<lparr>llm_cache := VNone\<rparr>)) = rest (world (s\<lparr>llm_cache := VNone\<rparr>))"
    using g w by simp_all
  from chats_insensitive [OF contract, unfolded insensitive_def, rule_format,
      OF none this run']
  obtain t' new'' out where "block [chat_without_memory L, chat_with_memory L]
      (t\<lparr>llm_cache := VNone\<rparr>) = (r, t')"
    "calls s' = calls s @ new''" "calls t' = calls t @ new''"
    "stdout s' = stdout s @ out" "stdout t' = stdout t @ out"
    by auto
  then have "chat_memory L t = (r, t')" "new_calls t t' = new_calls s s'"
    "drop (length (stdout t)) (stdout t') = drop (length (stdout s)) (stdout s')"
    by (simp_all add: rest new_calls_def)
  then show "\<exists>t'. chat_memory L t = (r, t') \<and> new_calls t t' = new_calls s s' \<and>
      drop (length (stdout t)) (stdout t') = drop (length (stdout s)) (stdout s')"
    by blast
qed

text \<open>
  The theorem on the library instance, from a kernel in which a cache is installed and
  holds an entry close to every prompt of the chat chains: the section runs to its
  end, its seventeen calls see no cache, none returns the stale answer, the cache is
  afterwards as it was, and over an empty cache the section issues the same calls with
  the same outcomes.
\<close>

theorem chat_memory_bypasses_cache_witness:
  "cell_b3c95687 demo_lib warm_state = (Ok (), warm_state\<lparr>llm_cache := VNone\<rparr>) \<and>
   fst (chat_memory demo_lib warm_state) = Ok () \<and>
   llm_cache (snd (chat_memory demo_lib warm_state)) = VNone \<and>
   list_all (\<lambda>c. cache_seen c = VNone)
     (new_calls warm_state (snd (chat_memory demo_lib warm_state))) \<and>
   length (new_calls warm_state (snd (chat_memory demo_lib warm_state))) = 17 \<and>
   Inr (VStr ''a stale answer'') \<notin>
     set (map outcome (new_calls warm_state (snd (chat_memory demo_lib warm_state)))) \<and>
   cache (world (snd (chat_memory demo_lib warm_state))) = cache world_warm \<and>
   new_calls cached_state (snd (chat_memory demo_lib cached_state)) =
     new_calls warm_state (snd (chat_memory demo_lib warm_state))"
proof -
  from warm_chat_run obtain s' where run: "chat_memory demo_lib warm_state = (Ok (), s')"
    and n: "length (calls s') = 17"
    and fresh: "Inr (VStr ''a stale answer'') \<notin> set (map outcome (calls s'))"
    unfolding returns_unit by blast
  have start: "calls warm_state = []" "world warm_state = world_warm"
    "globals cached_state = globals warm_state"
    "demo_rest (world cached_state) = demo_rest (world warm_state)"
    by (simp_all add: warm_state_def cached_state_def world_warm_def demo_rest_def)
  note inst = chat_memory_bypasses_cache [of demo_lib warm_state cache demo_rest]
  from inst have cell: "cell_b3c95687 demo_lib warm_state = (Ok (), warm_state\<lparr>llm_cache := VNone\<rparr>)"
    by blast
  from inst run demo_honours_none
  have a: "llm_cache s' = VNone" "list_all (\<lambda>c. cache_seen c = VNone) (new_calls warm_state s')"
    and b: "list_all (\<lambda>v. cache v = cache (world warm_state))
        (worlds demo_lib (world warm_state) (new_calls warm_state s'))"
      "world s' = last (world warm_state #
        worlds demo_lib (world warm_state) (new_calls warm_state s'))"
    and c: "\<exists>t'. chat_memory demo_lib cached_state = (Ok (), t') \<and>
        new_calls cached_state t' = new_calls warm_state s'"
    using start(3,4) by blast+
  from last_all [of "\<lambda>v. cache v = cache (world warm_state)", OF b(1) refl] b(2)
  have "cache (world s') = cache (world warm_state)"
    by simp
  with cell run a c n fresh start show ?thesis
    by (auto simp: new_calls_def)
qed


subsection \<open>One chat turn\<close>

lemma chat_turn_call:
  assumes chat: "globals s ''chat'' = Some chat"
    and run: "chat_turn L x s = (r, s')"
  shows "\<exists>out w'.
     L (llm_cache s) ''predict'' [chat] [(''human_input'', VStr x)] (world s) = (out, w') \<and>
     new_calls s s' =
       [\<lparr>callee = ''predict'', pos_args = [chat], kw_args = [(''human_input'', VStr x)],
         cache_seen = llm_cache s, outcome = out\<rparr>] \<and>
     r = (case out of Inl e \<Rightarrow> Raise (LibraryError e) | Inr v \<Rightarrow> Ok ()) \<and>
     world s' = w' \<and> llm_cache s' = llm_cache s \<and> globals s' ''chat'' = Some chat"
proof -
  obtain out w' where
    L: "L (llm_cache s) ''predict'' [chat] [(''human_input'', VStr x)] (world s) = (out, w')"
    by (cases "L (llm_cache s) ''predict'' [chat] [(''human_input'', VStr x)] (world s)")
  have "chat_turn L x s = py_bind (chat_turn L x) ret s"
    by (simp add: bind_ret_right)
  with run have "py_bind (chat_turn L x) ret s = (r, s')"
    by simp
  with chat L show ?thesis
    by (cases out)
      (auto simp: cps_chat_turn bind_var bind_invoke bind_store bind_emit ret_def new_calls_def
        returned_def)
qed

subsection \<open>The history is cleared\<close>

lemma memory_chain_built:
  "on_success (cell_807c7c70 L)
     \<lparr>globals = g, llm_cache = c, world = w, stdout = out, calls = cs\<rparr>
     (\<lambda>s1. \<exists>llm prompt history cleared memory chat w3 w4 w5.
        L c ''clear'' [history] [] w3 = (Inr cleared, w4) \<and>
        L c ''ConversationBufferMemory'' []
          [(''memory_key'', VStr ''history''), (''chat_memory'', history)] w4 = (Inr memory, w5) \<and>
        L c ''LLMChain'' []
          [(''llm'', llm), (''prompt'', prompt), (''verbose'', VBool True), (''memory'', memory)] w5 =
          (Inr chat, world s1) \<and>
        calls s1 = cs @
          [returned ''VertexAI'' []
             [(''model_name'', VStr ''gemini-pro''), (''max_output_tokens'', VInt 512),
              (''temperature'', VFloat 3 (- 1))] c llm,
           returned ''PromptTemplate'' []
             [(''input_variables'', VList [VStr ''history'', VStr ''human_input'']),
              (''template'', VStr template_memory)] c prompt,
           returned ''RedisChatMessageHistory'' []
             [(''key_prefix'', VStr ''chat-history:''), (''session_id'', VStr ''vs-demo'')] c history,
           returned ''clear'' [history] [] c cleared,
           returned ''ConversationBufferMemory'' []
             [(''memory_key'', VStr ''history''), (''chat_memory'', history)] c memory,
           returned ''LLMChain'' []
             [(''llm'', llm), (''prompt'', prompt), (''verbose'', VBool True), (''memory'', memory)]
             c chat] \<and>
        globals s1 ''chat'' = Some chat \<and> llm_cache s1 = c)"
  apply (rule on_success_start)
  apply (simp only: cells cps)
  apply ((rule on_success_invoke on_success_store on_success_emit on_success_lift
         | (rule on_success_var, (simp only: lookup; fail)))+)
  apply (rule on_success_ret)
  apply (simp only: state.select_convs append_assoc append.simps)
  apply (intro exI conjI)
         apply assumption
        apply assumption
       apply assumption
      apply (rule refl)
     apply (simp only: lookup)
  apply (rule refl)
  done

lemma map_of_put: "map_of (put k v kvs) k = Some v"
  by (induction kvs) auto

lemma demo_clears: "clears demo_lib demo_messages"
  by (auto simp: clears_def demo_lib_def lib_clear_def demo_messages_def redis_get_def
      redis_put_def map_of_put split: option.splits)

lemma demo_preserves:
  "preserves demo_lib demo_messages ''ConversationBufferMemory''"
  "preserves demo_lib demo_messages ''LLMChain''"
  by (auto simp: preserves_def demo_lib_def constructors_def)

lemma memory_cell_run:
  "\<exists>s'. returns (cell_807c7c70 demo_lib) (fresh world_local) s' \<and>
     calls s' ! 2 =
       returned ''RedisChatMessageHistory'' []
         [(''key_prefix'', VStr ''chat-history:''), (''session_id'', VStr ''vs-demo'')] VNone
         (VObj ''RedisChatMessageHistory''
            [(''key_prefix'', VStr ''chat-history:''), (''session_id'', VStr ''vs-demo'')])"
  apply (rule exI, rule conjI)
   apply (rule returns_start)
   apply (simp only: cells cps worlds)
   apply ((rule returns_store returns_emit returns_store_llm_cache
         | (rule returns_invoke, (simp only: eval cong: weak; fail), rule refl)
         | (rule returns_lift, (simp only: eval cong: weak; fail))
         | (rule returns_var, (simp only: lookup; fail)))+)
   apply (rule returns_ret)
  apply (simp add: returned_def)
  done

text \<open>
  Claim C9. Take a library whose \<^verbatim>\<open>clear\<close> leaves the history it is called on empty,
  and whose constructors of the buffer memory and of the chain do not touch stored
  messages. Whenever the cell that builds the chain with memory returns, from any state
  and so whatever the session holds from earlier runs, it has called, in this order: the
  model, the prompt template, the message history with key prefix \<^verbatim>\<open>chat-history:\<close> and
  session id \<^verbatim>\<open>vs-demo\<close>, \<^verbatim>\<open>clear\<close> on that history, the buffer memory on that
  history, and the chain on that memory. The history is empty in the world the cell
  leaves, and the first turn with memory issues its one \<^verbatim>\<open>predict\<close> on that chain in
  exactly that world.
\<close>

theorem history_cleared_before_first_turn:
  assumes clear: "clears L messages"
    and memory: "preserves L messages ''ConversationBufferMemory''"
    and chain: "preserves L messages ''LLMChain''"
    and run: "cell_807c7c70 L s = (Ok u, s1)"
  shows "\<exists>llm prompt history cleared memory chat.
     new_calls s s1 =
       [returned ''VertexAI'' []
          [(''model_name'', VStr ''gemini-pro''), (''max_output_tokens'', VInt 512),
           (''temperature'', VFloat 3 (- 1))] (llm_cache s) llm,
        returned ''PromptTemplate'' []
          [(''input_variables'', VList [VStr ''history'', VStr ''human_input'']),
           (''template'', VStr template_memory)] (llm_cache s) prompt,
        returned ''RedisChatMessageHistory'' []
          [(''key_prefix'', VStr ''chat-history:''), (''session_id'', VStr ''vs-demo'')]
          (llm_cache s) history,
        returned ''clear'' [history] [] (llm_cache s) cleared,
        returned ''ConversationBufferMemory'' []
          [(''memory_key'', VStr ''history''), (''chat_memory'', history)] (llm_cache s) memory,
        returned ''LLMChain'' []
          [(''llm'', llm), (''prompt'', prompt), (''verbose'', VBool True), (''memory'', memory)]
          (llm_cache s) chat] \<and>
     messages history (world s1) = [] \<and>
     (\<forall>r s2. cell_0706d1f6 L s1 = (r, s2) \<longrightarrow>
        (\<exists>out. L (llm_cache s) ''predict'' [chat] [(''human_input'', VStr greeting_adam)] (world s1) =
                 (out, world s2) \<and>
               new_calls s1 s2 =
                 [\<lparr>callee = ''predict'', pos_args = [chat],
                   kw_args = [(''human_input'', VStr greeting_adam)],
                   cache_seen = llm_cache s, outcome = out\<rparr>]))"
proof -
  obtain g c w out cs where s: "s = \<lparr>globals = g, llm_cache = c, world = w, stdout = out, calls = cs\<rparr>"
    by (cases s)
  from on_successD [OF memory_chain_built run [unfolded s]]
  obtain llm prompt history cleared memory chat w3 w4 w5 where
    1: "L c ''clear'' [history] [] w3 = (Inr cleared, w4)" and
    2: "L c ''ConversationBufferMemory'' []
          [(''memory_key'', VStr ''history''), (''chat_memory'', history)] w4 = (Inr memory, w5)" and
    3: "L c ''LLMChain'' []
          [(''llm'', llm), (''prompt'', prompt), (''verbose'', VBool True), (''memory'', memory)] w5 =
          (Inr chat, world s1)" and
    4: "calls s1 = cs @
          [returned ''VertexAI'' []
             [(''model_name'', VStr ''gemini-pro''), (''max_output_tokens'', VInt 512),
              (''temperature'', VFloat 3 (- 1))] c llm,
           returned ''PromptTemplate'' []
             [(''input_variables'', VList [VStr ''history'', VStr ''human_input'']),
              (''template'', VStr template_memory)] c prompt,
           returned ''RedisChatMessageHistory'' []
             [(''key_prefix'', VStr ''chat-history:''), (''session_id'', VStr ''vs-demo'')] c history,
           returned ''clear'' [history] [] c cleared,
           returned ''ConversationBufferMemory'' []
             [(''memory_key'', VStr ''history''), (''chat_memory'', history)] c memory,
           returned ''LLMChain'' []
             [(''llm'', llm), (''prompt'', prompt), (''verbose'', VBool True), (''memory'', memory)]
             c chat]" and
    5: "globals s1 ''chat'' = Some chat" and 6: "llm_cache s1 = c"
    by (elim exE conjE) (rule that; assumption)
  from clear 1 have "messages history w4 = []"
    unfolding clears_def by blast
  with memory 2 have "messages history w5 = []"
    unfolding preserves_def by metis
  with chain 3 have empty: "messages history (world s1) = []"
    unfolding preserves_def by metis
  have turn: "\<exists>out. L (llm_cache s) ''predict'' [chat] [(''human_input'', VStr greeting_adam)] (world s1) =
                 (out, world s2) \<and>
               new_calls s1 s2 =
                 [\<lparr>callee = ''predict'', pos_args = [chat],
                   kw_args = [(''human_input'', VStr greeting_adam)],
                   cache_seen = llm_cache s, outcome = out\<rparr>]"
    if "cell_0706d1f6 L s1 = (r, s2)" for r s2
    using chat_turn_call [OF 5 that [unfolded cell_0706d1f6_def]] 6 s by auto
  from 4 have "new_calls s s1 = drop (length cs) (calls s1)"
    by (simp add: new_calls_def s)
  with 4 empty turn show ?thesis
    unfolding s by (simp only: append_eq_conv_conj drop_append) (simp; blast)
qed


text \<open>
  The theorem on the library instance, in a world where the session holds two messages
  of an earlier run: the cell returns, and the session is empty afterwards.
\<close>

theorem history_cleared_before_first_turn_witness:
  "demo_messages
     (VObj ''RedisChatMessageHistory''
        [(''key_prefix'', VStr ''chat-history:''), (''session_id'', VStr ''vs-demo'')])
     (world (fresh world_local)) = [VStr ''Hi, I am Eve.'', VStr ''Hello Eve.''] \<and>
   fst (cell_807c7c70 demo_lib (fresh world_local)) = Ok () \<and>
   demo_messages
     (VObj ''RedisChatMessageHistory''
        [(''key_prefix'', VStr ''chat-history:''), (''session_id'', VStr ''vs-demo'')])
     (world (snd (cell_807c7c70 demo_lib (fresh world_local)))) = []"
proof -
  from memory_cell_run obtain s' where r: "returns (cell_807c7c70 demo_lib) (fresh world_local) s'"
    and h: "calls s' ! 2 =
       returned ''RedisChatMessageHistory'' []
         [(''key_prefix'', VStr ''chat-history:''), (''session_id'', VStr ''vs-demo'')] VNone
         (VObj ''RedisChatMessageHistory''
            [(''key_prefix'', VStr ''chat-history:''), (''session_id'', VStr ''vs-demo'')])"
    by blast
  from r have run: "cell_807c7c70 demo_lib (fresh world_local) = (Ok (), s')"
    by (simp add: returns_def)
  have before: "demo_messages
     (VObj ''RedisChatMessageHistory''
        [(''key_prefix'', VStr ''chat-history:''), (''session_id'', VStr ''vs-demo'')])
     (world (fresh world_local)) = [VStr ''Hi, I am Eve.'', VStr ''Hello Eve.'']"
    by (simp add: demo_messages_def history_key_def redis_get_def fresh_def world_local_def)
  have start: "calls (fresh world_local) = []"
    by (simp add: fresh_def)
  from history_cleared_before_first_turn [OF demo_clears demo_preserves run] h start
  have "demo_messages
     (VObj ''RedisChatMessageHistory''
        [(''key_prefix'', VStr ''chat-history:''), (''session_id'', VStr ''vs-demo'')])
     (world s') = []"
    by (auto simp: new_calls_def returned_def)
  with before run show ?thesis
    by simp
qed


subsection \<open>Turns of the chain without memory\<close>

lemma chat_turns_frame:
  "block (map (chat_turn L) xs) s = (Ok u, s') \<Longrightarrow> globals s ''chat'' = Some chat \<Longrightarrow>
   globals s' ''chat'' = Some chat \<and> llm_cache s' = llm_cache s"
proof (induction xs arbitrary: s)
  case Nil
  then show ?case
    by (simp add: ret_def)
next
  case (Cons x xs)
  obtain r1 s1 where turn: "chat_turn L x s = (r1, s1)"
    by (cases "chat_turn L x s")
  with Cons.prems(1) have rest: "block (map (chat_turn L) xs) s1 = (Ok u, s')"
    by (cases r1) (simp_all add: py_bind_def)
  from chat_turn_call [OF Cons.prems(2) turn]
  have "globals s1 ''chat'' = Some chat" "llm_cache s1 = llm_cache s"
    by auto
  with Cons.IH [OF rest] show ?case
    by simp
qed

lemma plain_chain_built:
  "on_success (cell_9832e65c L)
     \<lparr>globals = g, llm_cache = c, world = w, stdout = out, calls = cs\<rparr>
     (\<lambda>s. \<exists>llm prompt chat w1 w2 w3.
        L c ''PromptTemplate'' []
          [(''input_variables'', VList [VStr ''human_input'']),
           (''template'', VStr template_no_memory)] w1 = (Inr prompt, w2) \<and>
        L c ''LLMChain'' []
          [(''llm'', llm), (''prompt'', prompt), (''verbose'', VBool True)] w2 = (Inr chat, w3) \<and>
        calls s = cs @
          [returned ''VertexAI'' []
             [(''model_name'', VStr ''gemini-pro''), (''max_output_tokens'', VInt 512),
              (''temperature'', VFloat 2 (- 1))] c llm,
           returned ''PromptTemplate'' []
             [(''input_variables'', VList [VStr ''human_input'']),
              (''template'', VStr template_no_memory)] c prompt,
           returned ''LLMChain'' []
             [(''llm'', llm), (''prompt'', prompt), (''verbose'', VBool True)] c chat] \<and>
        globals s ''chat'' = Some chat \<and> llm_cache s = c)"
  apply (rule on_success_start)
  apply (simp only: cells cps)
  apply ((rule on_success_invoke on_success_store on_success_emit on_success_lift
         | (rule on_success_var, (simp only: lookup; fail)))+)
  apply (rule on_success_ret)
  apply (simp only: state.select_convs append_assoc append.simps)
  apply (intro exI conjI)
      apply assumption
     apply assumption
    apply (rule refl)
   apply (simp only: lookup)
  apply (rule refl)
  done

subsection \<open>The library instance fills the template and answers by the prompt\<close>

lemma demo_formats: "formats demo_lib VNone asked"
  unfolding formats_def
proof (intro allI impI)
  fix ps T p w0 w1 ks chain v0 v1 inputs P w r w'
  assume p: "demo_lib VNone ''PromptTemplate'' [] ps w0 = (Inr p, w1)"
    and T: "map_of ps ''template'' = Some (VStr T)"
    and chain: "demo_lib VNone ''LLMChain'' [] ks v0 = (Inr chain, v1)"
    and prompt: "map_of ks ''prompt'' = Some p" and memory: "map_of ks ''memory'' = None"
    and P: "fill inputs T = Some P"
    and run: "demo_lib VNone ''predict'' [chain] inputs w = (r, w')"
  from p have "p = VObj ''PromptTemplate'' ps"
    by (simp add: demo_lib_def constructors_def)
  moreover from chain have "chain = VObj ''LLMChain'' ks"
    by (simp add: demo_lib_def constructors_def)
  ultimately have "chain_template chain = Some T" "chain_memory chain = None"
    using T prompt memory by (simp_all add: chain_template_def chain_memory_def)
  with P run show "asked w' = asked w @ [P]"
    by (auto simp: demo_lib_def lib_predict_def predict_def llm_generate_def cache_url_def
        ask_def)
qed

lemma demo_same_answers: "same_answers demo_lib VNone asked"
proof -
  have one: "r = Inr (VStr (toy_llm P))"
    if "demo_lib VNone ''predict'' [chain] ks w = (r, w')" and "asked w' = asked w @ [P]"
    for chain ks w r w' P
    using that
    by (auto simp: demo_lib_def lib_predict_def predict_def llm_generate_def cache_url_def
        ask_def redis_put_def split: option.splits prod.splits)
  show ?thesis
    unfolding same_answers_def using one by blast
qed

lemma plain_chat_run:
  "\<exists>s s1 t1 t2.
     returns (cell_9832e65c demo_lib) (fresh world_local) s \<and>
     returns (block (map (chat_turn demo_lib) [greeting_eli, world_cup])) s s1 \<and>
     returns (chat_turn demo_lib whats_my_name) s1 t1 \<and>
     returns (chat_turn demo_lib whats_my_name) s t2 \<and>
     asked (world s) = [] \<and> length (asked (world s1)) = 2"
  apply (intro exI conjI)
       apply (rule returns_start)
       apply (simp only: cells cps worlds)
       apply ((rule returns_store returns_emit returns_store_llm_cache returns_ret
             | (rule returns_invoke, (simp only: eval cong: weak; fail), rule refl)
             | (rule returns_lift, (simp only: eval cong: weak; fail))
             | (rule returns_var, (simp only: lookup; fail)))+)
      apply (rule returns_start)
      apply (simp only: list.map cps)
      apply ((rule returns_store returns_emit returns_store_llm_cache returns_ret
            | (rule returns_invoke, (simp only: eval cong: weak; fail), rule refl)
            | (rule returns_lift, (simp only: eval cong: weak; fail))
            | (rule returns_var, (simp only: lookup; fail)))+)
     apply (rule returns_start)
     apply (simp only: list.map cps)
     apply ((rule returns_store returns_emit returns_store_llm_cache returns_ret
           | (rule returns_invoke, (simp only: eval cong: weak; fail), rule refl)
           | (rule returns_lift, (simp only: eval cong: weak; fail))
           | (rule returns_var, (simp only: lookup; fail)))+)
    apply (rule returns_start)
    apply (simp only: list.map cps)
    apply ((rule returns_store returns_emit returns_store_llm_cache returns_ret
          | (rule returns_invoke, (simp only: eval cong: weak; fail), rule refl)
          | (rule returns_lift, (simp only: eval cong: weak; fail))
          | (rule returns_var, (simp only: lookup; fail)))+)
   apply (simp only: state.select_convs demo_world.select_convs)
  apply (simp only: state.select_convs demo_world.select_convs)
  apply simp
  done

text \<open>
  Claim C10. The cell that builds the chain without memory calls the prompt template
  with \<^verbatim>\<open>human_input\<close> as its only input variable and the chain with the model, the
  prompt and \<^verbatim>\<open>verbose\<close>, and nothing else. Take two runs that continue from there
  with any two sequences of turns, and then both issue a turn with the same input.
  The one library call of that turn is the same in both runs: \<^verbatim>\<open>predict\<close> on the
  same chain, with the same \<^verbatim>\<open>human_input\<close> and the same cache setting. If the
  library keeps the contract of \<^verbatim>\<open>predict\<close> for a chain without memory, the prompt
  sent to the model is the same in both runs, the template with the input in place of
  its field, whatever the turns before. If moreover the model behaves the same (calls
  that send the same prompt have the same outcome), the two turns have the same
  outcome.
\<close>

theorem memoryless_turns_independent:
  assumes built: "cell_9832e65c L s0 = (Ok u0, s)"
    and before1: "block (map (chat_turn L) xs) s = (Ok u1, s1)"
    and before2: "block (map (chat_turn L) ys) s = (Ok u2, s2)"
    and turn1: "chat_turn L x s1 = (r1, t1)"
    and turn2: "chat_turn L x s2 = (r2, t2)"
  shows "\<exists>llm prompt chat out1 out2.
     new_calls s0 s =
       [returned ''VertexAI'' []
          [(''model_name'', VStr ''gemini-pro''), (''max_output_tokens'', VInt 512),
           (''temperature'', VFloat 2 (- 1))] (llm_cache s0) llm,
        returned ''PromptTemplate'' []
          [(''input_variables'', VList [VStr ''human_input'']),
           (''template'', VStr template_no_memory)] (llm_cache s0) prompt,
        returned ''LLMChain'' []
          [(''llm'', llm), (''prompt'', prompt), (''verbose'', VBool True)] (llm_cache s0) chat] \<and>
     new_calls s1 t1 =
       [\<lparr>callee = ''predict'', pos_args = [chat], kw_args = [(''human_input'', VStr x)],
         cache_seen = llm_cache s0, outcome = out1\<rparr>] \<and>
     new_calls s2 t2 =
       [\<lparr>callee = ''predict'', pos_args = [chat], kw_args = [(''human_input'', VStr x)],
         cache_seen = llm_cache s0, outcome = out2\<rparr>] \<and>
     (formats L (llm_cache s0) sent \<longrightarrow>
        (\<exists>P. fill [(''human_input'', VStr x)] template_no_memory = Some P \<and>
           sent (world t1) = sent (world s1) @ [P] \<and>
           sent (world t2) = sent (world s2) @ [P]) \<and>
        (same_answers L (llm_cache s0) sent \<longrightarrow> out1 = out2 \<and> r1 = r2))"
proof -
  obtain g c w out cs where s0: "s0 = \<lparr>globals = g, llm_cache = c, world = w, stdout = out, calls = cs\<rparr>"
    by (cases s0)
  from on_successD [OF plain_chain_built built [unfolded s0]]
  obtain llm prompt chat w1 w2 w3 where
    template: "L c ''PromptTemplate'' []
          [(''input_variables'', VList [VStr ''human_input'']),
           (''template'', VStr template_no_memory)] w1 = (Inr prompt, w2)"
    and chain: "L c ''LLMChain'' []
          [(''llm'', llm), (''prompt'', prompt), (''verbose'', VBool True)] w2 = (Inr chat, w3)"
    and calls: "calls s = cs @
          [returned ''VertexAI'' []
             [(''model_name'', VStr ''gemini-pro''), (''max_output_tokens'', VInt 512),
              (''temperature'', VFloat 2 (- 1))] c llm,
           returned ''PromptTemplate'' []
             [(''input_variables'', VList [VStr ''human_input'']),
              (''template'', VStr template_no_memory)] c prompt,
           returned ''LLMChain'' []
             [(''llm'', llm), (''prompt'', prompt), (''verbose'', VBool True)] c chat]"
    and chat: "globals s ''chat'' = Some chat" and cache: "llm_cache s = c"
    by (elim exE conjE) (rule that; assumption)
  from chat_turns_frame [OF before1 chat] cache
  have f1: "globals s1 ''chat'' = Some chat" "llm_cache s1 = c" by simp_all
  from chat_turns_frame [OF before2 chat] cache
  have f2: "globals s2 ''chat'' = Some chat" "llm_cache s2 = c" by simp_all
  from chat_turn_call [OF f1(1) turn1] f1(2) obtain out1 where
    o1: "L c ''predict'' [chat] [(''human_input'', VStr x)] (world s1) = (out1, world t1)"
    and c1: "new_calls s1 t1 =
       [\<lparr>callee = ''predict'', pos_args = [chat], kw_args = [(''human_input'', VStr x)],
         cache_seen = c, outcome = out1\<rparr>]"
    and r1: "r1 = (case out1 of Inl e \<Rightarrow> Raise (LibraryError e) | Inr v \<Rightarrow> Ok ())"
    by auto
  from chat_turn_call [OF f2(1) turn2] f2(2) obtain out2 where
    o2: "L c ''predict'' [chat] [(''human_input'', VStr x)] (world s2) = (out2, world t2)"
    and c2: "new_calls s2 t2 =
       [\<lparr>callee = ''predict'', pos_args = [chat], kw_args = [(''human_input'', VStr x)],
         cache_seen = c, outcome = out2\<rparr>]"
    and r2: "r2 = (case out2 of Inl e \<Rightarrow> Raise (LibraryError e) | Inr v \<Rightarrow> Ok ())"
    by auto
  let ?P = "take 198 template_no_memory @ x @ drop 211 template_no_memory"
  have P: "fill [(''human_input'', VStr x)] template_no_memory = Some ?P"
    by (rule fill_no_memory)
  have sent: "sent (world t1) = sent (world s1) @ [?P]" "sent (world t2) = sent (world s2) @ [?P]"
    if "formats L c sent"
    using that [unfolded formats_def, rule_format, OF template _ chain _ _ P o1]
      that [unfolded formats_def, rule_format, OF template _ chain _ _ P o2]
    by simp_all
  have same: "out1 = out2 \<and> r1 = r2" if "formats L c sent" and "same_answers L c sent"
  proof -
    from that(2) [unfolded same_answers_def, rule_format, OF o1 sent(1) [OF that(1)] o2
        sent(2) [OF that(1)]]
    have "out1 = out2" .
    with r1 r2 show ?thesis
      by simp
  qed
  from calls have "new_calls s0 s = drop (length cs) (calls s)"
    by (simp add: new_calls_def s0)
  with calls c1 c2 P sent same show ?thesis
    unfolding s0 by (simp only: append_eq_conv_conj drop_append) (simp; blast)
qed

text \<open>
  The theorem on the library instance: the question of the third turn, asked after the
  first two turns and asked at once, sends the model the same prompt and is answered
  the same.
\<close>

theorem memoryless_turns_independent_witness:
  "\<exists>s s1 t1 t2 P.
     cell_9832e65c demo_lib (fresh world_local) = (Ok (), s) \<and>
     block (map (chat_turn demo_lib) [greeting_eli, world_cup]) s = (Ok (), s1) \<and>
     chat_turn demo_lib whats_my_name s1 = (Ok (), t1) \<and>
     chat_turn demo_lib whats_my_name s = (Ok (), t2) \<and>
     asked (world s) = [] \<and> length (asked (world s1)) = 2 \<and>
     fill [(''human_input'', VStr whats_my_name)] template_no_memory = Some P \<and>
     asked (world t1) = asked (world s1) @ [P] \<and> asked (world t2) = [P] \<and>
     map outcome (new_calls s1 t1) = map outcome (new_calls s t2)"
proof -
  from plain_chat_run obtain s s1 t1 t2 where
    a: "cell_9832e65c demo_lib (fresh world_local) = (Ok (), s)" and
    b: "block (map (chat_turn demo_lib) [greeting_eli, world_cup]) s = (Ok (), s1)" and
    c: "chat_turn demo_lib whats_my_name s1 = (Ok (), t1)" and
    d: "chat_turn demo_lib whats_my_name s = (Ok (), t2)" and
    e: "asked (world s) = []" "length (asked (world s1)) = 2"
    unfolding returns_unit by (elim exE conjE) (rule that; assumption)
  have none: "block (map (chat_turn demo_lib) []) s = (Ok (), s)"
    by (simp add: ret_def)
  have start: "llm_cache (fresh world_local) = VNone"
    by (simp add: fresh_def)
  from memoryless_turns_independent [OF a b none c d, of asked] demo_formats demo_same_answers
  obtain P where "fill [(''human_input'', VStr whats_my_name)] template_no_memory = Some P"
    "asked (world t1) = asked (world s1) @ [P]" "asked (world t2) = asked (world s) @ [P]"
    "map outcome (new_calls s1 t1) = map outcome (new_calls s t2)"
    unfolding start by auto
  with a b c d e show ?thesis
    by auto
qed


subsection \<open>The world is threaded through the library\<close>














subsection \<open>The calls of a run of the notebook\<close>

lemma on_success_len:
  "(\<And>n. py_len x = Inr (VInt (int n)) \<Longrightarrow> on_success (k (VInt (int n))) s Q) \<Longrightarrow>
   on_success (py_bind (lift (py_len x)) k) s Q"
  by (cases x) (auto simp: on_success_def bind_lift)

lemma format_nat: "py_format (VInt (int n)) = Inr (str_nat n)"
  by simp

lemma len_list: "py_len (VList xs) = Inr (VInt (int n)) \<longleftrightarrow> n = length xs"
  by auto

lemma notebook_trace:
  "on_success (notebook M L) (fresh w)
     (\<lambda>s'. \<exists>r1 r2 r3 r4 resp1 file1 r7 loader1 docs1 resp2 file2 r12 loader2 loaded2 splitter
         splits embedding vectordb hits1 hits2 qa_prompt llm1 retriever qa o1 cache o2 o3
         llm2 prompt1 chat1 reply1 reply2 reply3 llm3 prompt2 history r38 memory chat2
         reply4 reply5 reply6 reply7 reply8 docs2 body1 body2 n.
        calls s' =
         [returned ''%pip install'' [VStr pip_packages] [] VNone r1,
          returned ''spacy.cli.download'' [VStr ''en_core_web_sm''] [] VNone r2,
          returned ''warnings.filterwarnings'' [VStr ''ignore''] [] VNone r3,
          returned ''dotenv.load_dotenv'' [] [] VNone r4,
          returned ''requests.get'' [VStr aggs_url] [(''allow_redirects'', VBool True)] VNone
            resp1,
          returned ''open'' [VStr ''aggregations.md'', VStr ''wb''] [] VNone file1,
          returned ''write'' [file1, body1] [] VNone r7,
          returned ''UnstructuredMarkdownLoader'' [VStr ''aggregations.md''] [] VNone loader1,
          returned ''load'' [loader1] [] VNone (VList docs1),
          returned ''requests.get'' [VStr query_syntax_url] [(''allow_redirects'', VBool True)]
            VNone resp2,
          returned ''open'' [VStr ''query_syntax.md'', VStr ''wb''] [] VNone file2,
          returned ''write'' [file2, body2] [] VNone r12,
          returned ''UnstructuredMarkdownLoader'' [VStr ''query_syntax.md''] [] VNone loader2,
          returned ''load'' [loader2] [] VNone loaded2,
          returned ''SpacyTextSplitter'' [] [(''chunk_size'', VInt 750), (''chunk_overlap'',
            VInt 50), (''strip_whitespace'', VBool True)] VNone splitter,
          returned ''split_documents'' [splitter, VList (docs1 @ docs2)] [] VNone splits,
          returned ''VertexAIEmbeddings'' [] [(''model_name'', VStr ''textembedding-gecko'')]
            VNone embedding,
          returned ''Redis.from_documents'' [] [(''documents'', splits), (''embedding'',
            embedding), (''index_name'', VStr ''redis-vs-docs'')] VNone vectordb,
          returned ''similarity_search_with_score'' [vectordb, VStr question_1] [(''k'', VInt
            3)] VNone hits1,
          returned ''max_marginal_relevance_search'' [vectordb, VStr question_1] [(''k'', VInt
            3), (''top_k'', VInt 5), (''threshold'', VFloat 5 (- 1))] VNone hits2,
          returned ''PromptTemplate'' [] [(''input_variables'', VList [VStr ''context'', VStr
            ''question'']), (''template'', VStr QA_TEMPLATE)] VNone qa_prompt,
          returned ''VertexAI'' [] [(''model_name'', VStr ''gemini-pro''),
            (''max_output_tokens'', VInt 512), (''temperature'', VFloat 3 (- 1))] VNone llm1,
          returned ''as_retriever'' [vectordb] [] VNone retriever,
          returned ''RetrievalQA.from_chain_type'' [] [(''llm'', llm1), (''chain_type'', VStr
            ''stuff''), (''retriever'', retriever), (''return_source_documents'', VBool True)]
            VNone qa,
          \<lparr>callee = ''__call__'', pos_args = [qa, VDict [(VStr ''query'', VStr
            question_1)]], kw_args = [], cache_seen = VNone, outcome = o1\<rparr>,
          returned ''RedisSemanticCache'' [] [(''embedding'', embedding), (''redis_url'', VStr
            ''redis://localhost:6379''), (''score_threshold'', VFloat 1 (- 1))] VNone cache,
          \<lparr>callee = ''__call__'', pos_args = [qa, VDict [(VStr ''query'', VStr
            question_2)]], kw_args = [], cache_seen = cache, outcome = o2\<rparr>,
          \<lparr>callee = ''__call__'', pos_args = [qa, VDict [(VStr ''query'', VStr
            question_3)]], kw_args = [], cache_seen = cache, outcome = o3\<rparr>,
          returned ''VertexAI'' [] [(''model_name'', VStr ''gemini-pro''),
            (''max_output_tokens'', VInt 512), (''temperature'', VFloat 2 (- 1))] VNone llm2,
          returned ''PromptTemplate'' [] [(''input_variables'', VList [VStr ''human_input'']),
            (''template'', VStr template_no_memory)] VNone prompt1,
          returned ''LLMChain'' [] [(''llm'', llm2), (''prompt'', prompt1), (''verbose'', VBool
            True)] VNone chat1,
          returned ''predict'' [chat1] [(''human_input'', VStr greeting_eli)] VNone reply1,
          returned ''predict'' [chat1] [(''human_input'', VStr world_cup)] VNone reply2,
          returned ''predict'' [chat1] [(''human_input'', VStr whats_my_name)] VNone reply3,
          returned ''VertexAI'' [] [(''model_name'', VStr ''gemini-pro''),
            (''max_output_tokens'', VInt 512), (''temperature'', VFloat 3 (- 1))] VNone llm3,
          returned ''PromptTemplate'' [] [(''input_variables'', VList [VStr ''history'', VStr
            ''human_input'']), (''template'', VStr template_memory)] VNone prompt2,
          returned ''RedisChatMessageHistory'' [] [(''key_prefix'', VStr ''chat-history:''),
            (''session_id'', VStr ''vs-demo'')] VNone history,
          returned ''clear'' [history] [] VNone r38,
          returned ''ConversationBufferMemory'' [] [(''memory_key'', VStr ''history''),
            (''chat_memory'', history)] VNone memory,
          returned ''LLMChain'' [] [(''llm'', llm3), (''prompt'', prompt2), (''verbose'', VBool
            True), (''memory'', memory)] VNone chat2,
          returned ''predict'' [chat2] [(''human_input'', VStr greeting_adam)] VNone reply4,
          returned ''predict'' [chat2] [(''human_input'', VStr harry_potter)] VNone reply5,
          returned ''predict'' [chat2] [(''human_input'', VStr their_school)] VNone reply6,
          returned ''predict'' [chat2] [(''human_input'', VStr train_platform)] VNone reply7,
          returned ''predict'' [chat2] [(''human_input'', VStr remember_my_name)] VNone reply8] \<and>
        stdout s' =
         [VStr (''Loaded '' @ str_nat (length (docs1 @ docs2)) @ '' documents''),
          VStr (''Generated '' @ str_nat n @ '' splits''), hits1, hits2] @
         answer_shown o1 @ answer_shown o2 @ answer_shown o3 @
         [reply1, reply2, reply3, reply4, reply5, reply6, reply7, reply8] \<and>
        llm_cache s' = VNone \<and>
        iterate loaded2 = Inr docs2 \<and>
        py_len splits = Inr (VInt (int n)) \<and>
        py_getattr resp1 ''content'' = Inr body1 \<and>
        py_getattr resp2 ''content'' = Inr body2 \<and>
        (M = Propagating \<longrightarrow> answer_shown o1 \<noteq> []) \<and>
        (M = Propagating \<longrightarrow> answer_shown o2 \<noteq> []) \<and>
        (M = Propagating \<longrightarrow> answer_shown o3 \<noteq> []))"
  apply (rule on_success_start)
  apply (simp only: cells qa_cells cps fresh_def)
  apply ((rule on_success_call on_success_store on_success_emit on_success_store_llm_cache
          on_success_len on_success_lift
         | (rule on_success_index, (simp only: lookup; fail), (simp only: lookup; fail))
         | (rule on_success_timed_qa, (simp only: lookup; fail), (simp only: lookup; fail))
         | (rule on_success_var, (simp only: lookup; fail))
         | (rule on_success_unbound, (simp only: lookup; fail)))+)
  apply (rule on_success_ret)
  apply (simp only: list_items_Inr callable_Inr len_list format_nat py_format.simps(1) sum.inject)
  apply hypsubst
  apply (simp only: state.select_convs append_assoc append.simps append_Nil2)
  apply (intro exI conjI)
  apply (rule refl)
  apply (rule refl)
  apply (rule refl)
  apply assumption+
  done


lemma local_run:
  "\<exists>s'. returns (notebook M demo_lib) (fresh world_local) s' \<and>
     stdout s' ! 6 = VStr (toy_llm question_2) \<and>
     outcome (calls s' ! 25) =
       Inr (VObj ''RedisSemanticCache''
         [(''embedding'', VObj ''VertexAIEmbeddings'' [(''model_name'', VStr ''textembedding-gecko'')]),
          (''redis_url'', VStr ''redis://localhost:6379''),
          (''score_threshold'', VFloat 1 (- 1))])"
  apply (rule exI, rule conjI)
   apply (rule returns_start)
   apply (simp only: cells timed_cells cps worlds)
   apply ((rule returns_store returns_emit returns_store_llm_cache returns_ret returns_timed
         | (rule returns_invoke, (simp only: eval cong: weak; fail), rule refl)
         | (rule returns_lift, (simp only: eval cong: weak; fail))
         | (rule returns_var, (simp only: lookup; fail)))+)
  apply (simp only: state.select_convs)
  apply (simp add: toy_llm_def returned_def)
  done




subsection \<open>The cache is global state\<close>

lemma uncached_run:
  "\<exists>s'. returns (notebook_without_cache M demo_lib) (fresh world_local) s' \<and>
     stdout s' ! 6 = VStr (toy_llm question_3)"
  apply (rule exI, rule conjI)
   apply (rule returns_start)
   apply (simp only: cells timed_cells cps worlds)
   apply ((rule returns_store returns_emit returns_store_llm_cache returns_ret returns_timed
         | (rule returns_invoke, (simp only: eval cong: weak; fail), rule refl)
         | (rule returns_lift, (simp only: eval cong: weak; fail))
         | (rule returns_var, (simp only: lookup; fail)))+)
  apply (simp only: state.select_convs)
  apply (simp add: toy_llm_def)
  done

text \<open>
  Against claim C5 as stated: on the library instance, the answer the last
  question-answering cell prints depends on whether the cell that assigns
  \<^verbatim>\<open>langchain.llm_cache\<close> has run before it. With that cell, the third question is
  answered from the cache, with the answer to the second; without it, the model
  answers the third question itself.
\<close>

theorem cache_cell_changes_answer:
  "fst (notebook Swallowing demo_lib (fresh world_local)) = Ok () \<and>
   fst (notebook_without_cache Swallowing demo_lib (fresh world_local)) = Ok () \<and>
   stdout (snd (notebook Swallowing demo_lib (fresh world_local))) ! 6 =
     VStr (''answer to: '' @ question_2) \<and>
   stdout (snd (notebook_without_cache Swallowing demo_lib (fresh world_local))) ! 6 =
     VStr (''answer to: '' @ question_3) \<and>
   question_2 \<noteq> question_3"
proof -
  from local_run [of Swallowing] obtain s1 where
    "notebook Swallowing demo_lib (fresh world_local) = (Ok (), s1)"
    "stdout s1 ! 6 = VStr (toy_llm question_2)"
    unfolding returns_unit by blast
  moreover from uncached_run [of Swallowing] obtain s2 where
    "notebook_without_cache Swallowing demo_lib (fresh world_local) = (Ok (), s2)"
    "stdout s2 ! 6 = VStr (toy_llm question_3)"
    unfolding returns_unit by blast
  moreover have "question_2 \<noteq> question_3"
    by (simp add: question_2_def question_3_def)
  ultimately show ?thesis
    by (simp add: toy_llm_def)
qed

text \<open>
  Claim C5, amended. The module attribute \<^verbatim>\<open>langchain.llm_cache\<close> is global mutable
  state that the library reads at every call: in every run of the notebook that reaches
  its end, the twenty-sixth call builds the cache object, the two calls of the chain
  that follow are made with that object in effect, every other call is made with None,
  and the attribute is None at the end.
\<close>

theorem cache_is_global_state:
  assumes run: "notebook M L (fresh w) = (Ok u, s')"
  shows "\<exists>cache. length (calls s') = 45 \<and>
     callee (calls s' ! 25) = ''RedisSemanticCache'' \<and> outcome (calls s' ! 25) = Inr cache \<and>
     list_all (\<lambda>c. cache_seen c = VNone) (take 26 (calls s')) \<and>
     map callee (take 2 (drop 26 (calls s'))) = [''__call__'', ''__call__''] \<and>
     map cache_seen (take 2 (drop 26 (calls s'))) = [cache, cache] \<and>
     list_all (\<lambda>c. cache_seen c = VNone) (drop 28 (calls s')) \<and>
     llm_cache s' = VNone"
  using on_successD [OF notebook_trace run]
  by (elim exE conjE) (simp add: returned_def)

text \<open>The theorem on the library instance: the two calls see the cache object.\<close>

theorem cache_is_global_state_witness:
  "fst (notebook Swallowing demo_lib (fresh world_local)) = Ok () \<and>
   map cache_seen (take 2 (drop 26 (calls (snd (notebook Swallowing demo_lib (fresh world_local)))))) =
     [VObj ''RedisSemanticCache''
         [(''embedding'', VObj ''VertexAIEmbeddings'' [(''model_name'', VStr ''textembedding-gecko'')]),
          (''redis_url'', VStr ''redis://localhost:6379''),
          (''score_threshold'', VFloat 1 (- 1))],
      VObj ''RedisSemanticCache''
         [(''embedding'', VObj ''VertexAIEmbeddings'' [(''model_name'', VStr ''textembedding-gecko'')]),
          (''redis_url'', VStr ''redis://localhost:6379''),
          (''score_threshold'', VFloat 1 (- 1))]] \<and>
   llm_cache (snd (notebook Swallowing demo_lib (fresh world_local))) = VNone"
proof -
  from local_run [of Swallowing] obtain s' where
    run: "notebook Swallowing demo_lib (fresh world_local) = (Ok (), s')"
    and c: "outcome (calls s' ! 25) =
       Inr (VObj ''RedisSemanticCache''
         [(''embedding'', VObj ''VertexAIEmbeddings'' [(''model_name'', VStr ''textembedding-gecko'')]),
          (''redis_url'', VStr ''redis://localhost:6379''),
          (''score_threshold'', VFloat 1 (- 1))])"
    unfolding returns_unit by blast
  from cache_is_global_state [OF run] c run show ?thesis
    by auto
qed
end
